theory Spec2Isabelle
  imports Main "HOL-Library.Word"
begin

unbundle bit_operations_syntax

section \<open>basic\_example.cpp: the recursive factorial\<close>

text \<open>
  \<^verbatim>\<open>int factorial(int n) { if (n <= 1) { return 1; } return n * factorial(n - 1); }\<close>

  \<open>int\<close> is a 32-bit two's complement integer: a \<open>32 word\<close> compared with the signed order
  \<open>\<le>s\<close>; \<open>-\<close> and \<open>*\<close> on words wrap around. The recursion is kept as the source has it:
  a call that never returned would be \<open>None\<close>.
\<close>

type_synonym int32 = "32 word"

partial_function (option) factorial :: "int32 \<Rightarrow> int32 option" where
  "factorial n =
     (if n \<le>s 1 then Some 1
      else Option.bind (factorial (n - 1)) (\<lambda>r. Some (n * r)))"

section \<open>data\_structures.cpp: the singly linked list\<close>

text \<open>
  \<^verbatim>\<open>template<typename T> struct Node : Node_base { T data; std::shared_ptr<Node<T>> next; ... };\<close>
  \<^verbatim>\<open>template<typename T> class LinkedList { std::shared_ptr<Node<T>> head; size_t size; ... };\<close>

  Nodes live on the heap and \<open>push_back\<close> writes into the last node of the list, so the
  heap is explicit: a map from addresses to nodes. A \<open>shared_ptr\<close> is the address it holds,
  \<open>nullptr\<close> is address 0. \<open>size_t\<close> and addresses are 64-bit words (\<open>size++\<close> and
  \<open>size--\<close> wrap around). \<open>std::make_shared\<close> returns the address of a new node; which
  address is the allocator's choice, so it is a parameter of the two push operations.
  Reference counts are not modelled: a node that \<open>pop_front\<close> unlinks stays in the map.
  An operation returns \<open>None\<close> when it would not return: the loop of \<open>push_back\<close> running
  forever, or a pointer followed that holds no node. The field \<open>next\<close> is named \<open>nxt\<close> and
  the field \<open>size\<close> is named \<open>size_f\<close> here.
\<close>

type_synonym addr = "64 word"
type_synonym size_t = "64 word"

record 'a Node =
  data :: 'a
  nxt :: addr

type_synonym 'a heap = "addr \<Rightarrow> 'a Node option"

record LinkedList =
  head :: addr
  size_f :: size_t

definition nullptr :: addr where
  "nullptr = 0"

definition make_shared_Node :: "addr \<Rightarrow> 'a \<Rightarrow> 'a heap \<Rightarrow> 'a heap" where
  "make_shared_Node p v h = h(p \<mapsto> \<lparr>Node.data = v, nxt = nullptr\<rparr>)"

definition LinkedList_ctor :: LinkedList where
  "LinkedList_ctor = \<lparr>head = nullptr, size_f = 0\<rparr>"

definition set_next :: "addr \<Rightarrow> addr \<Rightarrow> 'a heap \<Rightarrow> 'a heap option" where
  "set_next p q h = (case h p of None \<Rightarrow> None | Some n \<Rightarrow> Some (h(p \<mapsto> n\<lparr>nxt := q\<rparr>)))"

definition push_front :: "addr \<Rightarrow> 'a \<Rightarrow> 'a heap \<times> LinkedList \<Rightarrow> ('a heap \<times> LinkedList) option" where
  "push_front new_node v s =
     (case s of (h, l) \<Rightarrow>
        (case set_next new_node (head l) (make_shared_Node new_node v h) of
           None \<Rightarrow> None
         | Some h' \<Rightarrow> Some (h', l\<lparr>head := new_node, size_f := size_f l + 1\<rparr>)))"

text \<open>
  The loop of \<open>push_back\<close>, started at \<open>current = head\<close>:
  \<^verbatim>\<open>while (current->next) { current = current->next; }\<close>
\<close>

partial_function (option) last_node :: "'a heap \<Rightarrow> addr \<Rightarrow> addr option" where
  "last_node h current =
     (case h current of
        None \<Rightarrow> None
      | Some n \<Rightarrow> if nxt n \<noteq> nullptr then last_node h (nxt n) else Some current)"

definition push_back :: "addr \<Rightarrow> 'a \<Rightarrow> 'a heap \<times> LinkedList \<Rightarrow> ('a heap \<times> LinkedList) option" where
  "push_back new_node v s =
     (case s of (h, l) \<Rightarrow>
        (let h1 = make_shared_Node new_node v h in
         if head l = nullptr then Some (h1, l\<lparr>head := new_node, size_f := size_f l + 1\<rparr>)
         else
           (case last_node h1 (head l) of
              None \<Rightarrow> None
            | Some current \<Rightarrow>
                (case set_next current new_node h1 of
                   None \<Rightarrow> None
                 | Some h2 \<Rightarrow> Some (h2, l\<lparr>size_f := size_f l + 1\<rparr>)))))"

definition pop_front :: "'a heap \<times> LinkedList \<Rightarrow> ('a heap \<times> LinkedList) option" where
  "pop_front s =
     (case s of (h, l) \<Rightarrow>
        if head l \<noteq> nullptr then
          (case h (head l) of
             None \<Rightarrow> None
           | Some n \<Rightarrow> Some (h, l\<lparr>head := nxt n, size_f := size_f l - 1\<rparr>))
        else Some (h, l))"

definition get_size :: "LinkedList \<Rightarrow> size_t" where
  "get_size l = size_f l"

text \<open>
  \<open>chain h p as\<close>: following \<open>next\<close> pointers from \<open>p\<close> visits exactly the nodes \<open>as\<close>, in
  this order, and then reaches \<open>nullptr\<close>. \<open>size_ok\<close> is the invariant: the nodes reachable
  from \<open>head\<close> are \<open>as\<close> and \<open>size\<close> is their number.
\<close>

fun chain :: "'a heap \<Rightarrow> addr \<Rightarrow> addr list \<Rightarrow> bool" where
  "chain h p [] = (p = nullptr)"
| "chain h p (a # as) =
     (p = a \<and> a \<noteq> nullptr \<and> (case h a of None \<Rightarrow> False | Some n \<Rightarrow> chain h (nxt n) as))"

definition size_ok :: "'a heap \<Rightarrow> LinkedList \<Rightarrow> addr list \<Rightarrow> bool" where
  "size_ok h l as = (chain h (head l) as \<and> unat (size_f l) = length as)"

text \<open>A heap with one node at address 1, for the worked example.\<close>

definition heap1 :: "int heap" where
  "heap1 = Map.empty(1 \<mapsto> \<lparr>Node.data = 7, nxt = nullptr\<rparr>)"

section \<open>templates.cpp: the class template Array and its specialization\<close>

text \<open>
  \<^verbatim>\<open>template<typename T, int Size> class Array { T data[Size]; T& operator[](int index); ... };\<close>
  \<^verbatim>\<open>template<> class Array<bool, 8> { unsigned char data; bool operator[](int); void set(int, bool); };\<close>

  The template argument \<open>Size\<close> is a field of the record. A member function takes the
  object and returns the object afterwards together with its result: \<open>Inl\<close> of the
  exception thrown, or \<open>Inr\<close> of the value returned. The reference \<open>T&\<close> that the primary
  template's \<open>operator[]\<close> returns is the position of the element in \<open>data\<close>.
  In the specialization \<open>data\<close> is promoted to \<open>int\<close> for \<open>&\<close>, \<open>|\<close> and \<open>~\<close> and
  truncated back to \<open>unsigned char\<close> by the assignment.
\<close>

datatype exception = out_of_range string

record 'a Array =
  Size :: int32
  data :: "'a list"

definition Array_ctor :: "int32 \<Rightarrow> 'a \<Rightarrow> 'a Array" where
  "Array_ctor n dflt = \<lparr>Size = n, data = replicate (nat (sint n)) dflt\<rparr>"

definition Array_index :: "'a Array \<Rightarrow> int32 \<Rightarrow> 'a Array \<times> (exception + nat)" where
  "Array_index a index =
     (if index <s 0 \<or> Size a \<le>s index then (a, Inl (out_of_range ''Index out of range''))
      else (a, Inr (nat (sint index))))"

definition Array_size :: "'a Array \<Rightarrow> int32" where
  "Array_size a = Size a"

record Array_bool_8 =
  data :: "8 word"

definition Array_bool_8_ctor :: Array_bool_8 where
  "Array_bool_8_ctor = \<lparr>data = 0\<rparr>"

definition bit_mask :: "int32 \<Rightarrow> int32" where
  "bit_mask index = push_bit (nat (sint index)) 1"

definition Array_bool_8_index :: "Array_bool_8 \<Rightarrow> int32 \<Rightarrow> Array_bool_8 \<times> (exception + bool)" where
  "Array_bool_8_index a index =
     (if index <s 0 \<or> 8 \<le>s index then (a, Inl (out_of_range ''Index out of range''))
      else (a, Inr ((ucast (Array_bool_8.data a) AND bit_mask index) \<noteq> 0)))"

definition Array_bool_8_set :: "Array_bool_8 \<Rightarrow> int32 \<Rightarrow> bool \<Rightarrow> Array_bool_8 \<times> (exception + unit)" where
  "Array_bool_8_set a index v =
     (if index <s 0 \<or> 8 \<le>s index then (a, Inl (out_of_range ''Index out of range''))
      else if v then
        (a\<lparr>Array_bool_8.data := ucast ((ucast (Array_bool_8.data a) :: int32) OR bit_mask index)\<rparr>, Inr ())
      else
        (a\<lparr>Array_bool_8.data := ucast ((ucast (Array_bool_8.data a) :: int32) AND NOT (bit_mask index))\<rparr>, Inr ()))"

definition Array_bool_8_size :: "Array_bool_8 \<Rightarrow> int32" where
  "Array_bool_8_size a = 8"

section \<open>The sample files as text\<close>

text \<open>
  The four files under \<^verbatim>\<open>test_samples\<close> are C++ source text. Each is given here byte for
  byte, one string per line of the file; bytes outside printable ASCII (the UTF-8 of the
  comments) are written as character codes. \<open>terminated\<close> puts the newline back after
  each line.
\<close>

definition newline :: char where
  "newline = CHR 0x0A"

definition terminated :: "string list \<Rightarrow> string" where
  "terminated ls = concat (map (\<lambda>l. l @ [newline]) ls)"

text \<open>\<^verbatim>\<open>basic_example.cpp\<close>: 36 newline-terminated lines.\<close>

definition basic_example_cpp :: string where
  \<open>basic_example_cpp = terminated
    [''// example.cpp'',
     ''// '' @ [CHR 0xE8, CHR 0xBF, CHR 0x99, CHR 0xE6, CHR 0x98, CHR 0xAF, CHR 0xE4, CHR 0xB8,
       CHR 0x80, CHR 0xE4, CHR 0xB8, CHR 0xAA, CHR 0xE7, CHR 0x94, CHR 0xA8, CHR 0xE4, CHR 0xBA,
       CHR 0x8E, CHR 0xE6, CHR 0xB5, CHR 0x8B, CHR 0xE8, CHR 0xAF, CHR 0x95, CHR 0xE8, CHR 0xAF,
       CHR 0xAD, CHR 0xE6, CHR 0xB3, CHR 0x95, CHR 0xE6, CHR 0xA0, CHR 0x91, CHR 0xE8, CHR 0xA7,
       CHR 0xA3, CHR 0xE6, CHR 0x9E, CHR 0x90, CHR 0xE5, CHR 0x8A, CHR 0x9F, CHR 0xE8, CHR 0x83,
       CHR 0xBD, CHR 0xE7, CHR 0x9A, CHR 0x84, CHR 0xE7, CHR 0xA4, CHR 0xBA, CHR 0xE4, CHR 0xBE,
       CHR 0x8B] @ ''C++'' @ [CHR 0xE6, CHR 0x96, CHR 0x87, CHR 0xE4, CHR 0xBB, CHR 0xB6],
     '''',
     ''int factorial(int n) {'',
     ''    if (n <= 1) {'',
     ''        return 1;'',
     ''    }'',
     ''    return n * factorial(n - 1);'',
     ''}'',
     '''',
     ''// '' @ [CHR 0xE5, CHR 0xAE, CHR 0x9A, CHR 0xE4, CHR 0xB9, CHR 0x89, CHR 0xE4, CHR 0xB8,
       CHR 0x80, CHR 0xE4, CHR 0xB8, CHR 0xAA, CHR 0xE7, CHR 0xAE, CHR 0x80, CHR 0xE5, CHR 0x8D,
       CHR 0x95, CHR 0xE7, CHR 0x9A, CHR 0x84, CHR 0xE7, CHR 0xB1, CHR 0xBB],
     ''class Calculator {'',
     ''public:'',
     ''    Calculator() : value(0) {}'',
     ''    '',
     ''    // '' @ [CHR 0xE8, CHR 0xAE, CHR 0xA1, CHR 0xE7, CHR 0xAE, CHR 0x97, CHR 0xE9,
       CHR 0x98, CHR 0xB6, CHR 0xE4, CHR 0xB9, CHR 0x98, CHR 0xE5, CHR 0xB9, CHR 0xB6, CHR 0xE5,
       CHR 0xAD, CHR 0x98, CHR 0xE5, CHR 0x82, CHR 0xA8, CHR 0xE7, CHR 0xBB, CHR 0x93, CHR 0xE6,
       CHR 0x9E, CHR 0x9C],
     ''    void computeFactorial(int n) {'',
     ''        value = factorial(n);'',
     ''    }'',
     ''    '',
     ''    // '' @ [CHR 0xE8, CHR 0x8E, CHR 0xB7, CHR 0xE5, CHR 0x8F, CHR 0x96, CHR 0xE8,
       CHR 0xAE, CHR 0xA1, CHR 0xE7, CHR 0xAE, CHR 0x97, CHR 0xE7, CHR 0xBB, CHR 0x93, CHR 0xE6,
       CHR 0x9E, CHR 0x9C],
     ''    int getValue() const {'',
     ''        return value;'',
     ''    }'',
     ''    '',
     ''private:'',
     ''    int value; // '' @ [CHR 0xE5, CHR 0xAD, CHR 0x98, CHR 0xE5, CHR 0x82, CHR 0xA8,
       CHR 0xE8, CHR 0xAE, CHR 0xA1, CHR 0xE7, CHR 0xAE, CHR 0x97, CHR 0xE7, CHR 0xBB, CHR 0x93,
       CHR 0xE6, CHR 0x9E, CHR 0x9C],
     ''};'',
     '''',
     ''// '' @ [CHR 0xE4, CHR 0xB8, CHR 0xBB, CHR 0xE5, CHR 0x87, CHR 0xBD, CHR 0xE6, CHR 0x95,
       CHR 0xB0],
     ''int main() {'',
     ''    Calculator calc;'',
     ''    calc.computeFactorial<Calculator>(5);'',
     ''    return calc.getValue();'',
     ''}'',
     '''']\<close>

text \<open>\<^verbatim>\<open>data_structures.cpp\<close>: 104 newline-terminated lines.\<close>

definition data_structures_cpp :: string where
  \<open>data_structures_cpp = terminated
    [''// data_structures.cpp'',
     ''// '' @ [CHR 0xE6, CHR 0x95, CHR 0xB0, CHR 0xE6, CHR 0x8D, CHR 0xAE, CHR 0xE7, CHR 0xBB,
       CHR 0x93, CHR 0xE6, CHR 0x9E, CHR 0x84, CHR 0xE5, CHR 0xAE, CHR 0x9E, CHR 0xE7, CHR 0x8E,
       CHR 0xB0, CHR 0xE7, CHR 0xA4, CHR 0xBA, CHR 0xE4, CHR 0xBE, CHR 0x8B],
     '''',
     ''#include <iostream>'',
     ''#include <memory>'',
     '''',
     ''struct Node_base {};'',
     '''',
     ''// '' @ [CHR 0xE7, CHR 0xAE, CHR 0x80, CHR 0xE5, CHR 0x8D, CHR 0x95, CHR 0xE9, CHR 0x93,
       CHR 0xBE, CHR 0xE8, CHR 0xA1, CHR 0xA8, CHR 0xE8, CHR 0x8A, CHR 0x82, CHR 0xE7, CHR 0x82,
       CHR 0xB9, CHR 0xE5, CHR 0xAE, CHR 0x9A, CHR 0xE4, CHR 0xB9, CHR 0x89],
     ''template<typename T>'',
     ''struct Node '',
     '': Node_base {'',
     ''    T data;'',
     ''    std::shared_ptr<Node<T>> next;'',
     ''    '',
     ''    Node(T value) : data(value), next(nullptr) {}'',
     '''',
     ''    void print() const {'',
     ''        std::cout << data << " -> " << (next ? next->data : "nullptr") << std::endl;'',
     ''    }'',
     ''};'',
     '''',
     ''// '' @ [CHR 0xE9, CHR 0x93, CHR 0xBE, CHR 0xE8, CHR 0xA1, CHR 0xA8, CHR 0xE7, CHR 0xB1,
       CHR 0xBB, CHR 0xE5, CHR 0xAE, CHR 0x9E, CHR 0xE7, CHR 0x8E, CHR 0xB0],
     ''template<typename T>'',
     ''class LinkedList {'',
     ''private:'',
     ''    std::shared_ptr<Node<T>> head;      // '' @ [CHR 0xE9, CHR 0x93, CHR 0xBE, CHR 0xE8,
       CHR 0xA1, CHR 0xA8, CHR 0xE5, CHR 0xA4, CHR 0xB4, CHR 0xE6, CHR 0x8C, CHR 0x87, CHR 0xE9,
       CHR 0x92, CHR 0x88],
     ''    size_t size;'',
     ''    '',
     ''public:'',
     ''    LinkedList() : head(nullptr), size(0) {}'',
     ''    '',
     ''    // '' @ [CHR 0xE6, CHR 0xB7, CHR 0xBB, CHR 0xE5, CHR 0x8A, CHR 0xA0, CHR 0xE5,
       CHR 0x85, CHR 0x83, CHR 0xE7, CHR 0xB4, CHR 0xA0, CHR 0xE5, CHR 0x88, CHR 0xB0, CHR 0xE9,
       CHR 0x93, CHR 0xBE, CHR 0xE8, CHR 0xA1, CHR 0xA8, CHR 0xE5, CHR 0xA4, CHR 0xB4, CHR 0xE9,
       CHR 0x83, CHR 0xA8],
     ''    void push_front(T value) {'',
     ''        auto new_node = std::make_shared<Node<T>>(value);'',
     ''        new_node->next = head;'',
     ''        head = new_node;'',
     ''        size++;'',
     ''    }'',
     ''    '',
     ''    // '' @ [CHR 0xE6, CHR 0xB7, CHR 0xBB, CHR 0xE5, CHR 0x8A, CHR 0xA0, CHR 0xE5,
       CHR 0x85, CHR 0x83, CHR 0xE7, CHR 0xB4, CHR 0xA0, CHR 0xE5, CHR 0x88, CHR 0xB0, CHR 0xE9,
       CHR 0x93, CHR 0xBE, CHR 0xE8, CHR 0xA1, CHR 0xA8, CHR 0xE5, CHR 0xB0, CHR 0xBE, CHR 0xE9,
       CHR 0x83, CHR 0xA8],
     ''    void push_back(T value) {'',
     ''        auto new_node = std::make_shared<Node<T>>(value);'',
     ''        '',
     ''        if (!head) {'',
     ''            head = new_node;'',
     ''        } else {'',
     ''            auto current = head;'',
     ''            while (current->next) {'',
     ''                current = current->next;'',
     ''            }'',
     ''            current->next = new_node;'',
     ''        }'',
     ''        size++;'',
     ''    }'',
     ''    '',
     ''    // '' @ [CHR 0xE7, CHR 0xA7, CHR 0xBB, CHR 0xE9, CHR 0x99, CHR 0xA4, CHR 0xE9,
       CHR 0x93, CHR 0xBE, CHR 0xE8, CHR 0xA1, CHR 0xA8, CHR 0xE5, CHR 0xA4, CHR 0xB4, CHR 0xE9,
       CHR 0x83, CHR 0xA8, CHR 0xE5, CHR 0x85, CHR 0x83, CHR 0xE7, CHR 0xB4, CHR 0xA0],
     ''    void pop_front() {'',
     ''        if (head) {'',
     ''            head = head->next;'',
     ''            size--;'',
     ''        }'',
     ''    }'',
     ''    '',
     ''    // '' @ [CHR 0xE8, CHR 0x8E, CHR 0xB7, CHR 0xE5, CHR 0x8F, CHR 0x96, CHR 0xE9,
       CHR 0x93, CHR 0xBE, CHR 0xE8, CHR 0xA1, CHR 0xA8, CHR 0xE5, CHR 0xA4, CHR 0xA7, CHR 0xE5,
       CHR 0xB0, CHR 0x8F],
     ''    size_t get_size() const {'',
     ''        return size;'',
     ''    }'',
     ''    '',
     ''    // '' @ [CHR 0xE6, CHR 0x89, CHR 0x93, CHR 0xE5, CHR 0x8D, CHR 0xB0, CHR 0xE9,
       CHR 0x93, CHR 0xBE, CHR 0xE8, CHR 0xA1, CHR 0xA8, CHR 0xE5, CHR 0x86, CHR 0x85, CHR 0xE5,
       CHR 0xAE, CHR 0xB9],
     ''    void print() const {'',
     ''        auto current = head;'',
     ''        while (current) {'',
     ''            std::cout << current->data << " -> ";'',
     ''            current = current->next;'',
     ''        }'',
     ''        std::cout << "nullptr" << std::endl;'',
     ''    }'',
     ''};'',
     '''',
     ''// '' @ [CHR 0xE6, CHR 0xB5, CHR 0x8B, CHR 0xE8, CHR 0xAF, CHR 0x95, CHR 0xE9, CHR 0x93,
       CHR 0xBE, CHR 0xE8, CHR 0xA1, CHR 0xA8],
     ''int main() {'',
     ''    LinkedList<int> list;'',
     ''    '',
     ''    // '' @ [CHR 0xE6, CHR 0xB7, CHR 0xBB, CHR 0xE5, CHR 0x8A, CHR 0xA0, CHR 0xE5,
       CHR 0x85, CHR 0x83, CHR 0xE7, CHR 0xB4, CHR 0xA0],
     ''    list.push_back(1);'',
     ''    list.push_back(2);'',
     ''    list.push_back(3);'',
     ''    list.push_front(0);'',
     ''    '',
     ''    // '' @ [CHR 0xE6, CHR 0x89, CHR 0x93, CHR 0xE5, CHR 0x8D, CHR 0xB0, CHR 0xE9,
       CHR 0x93, CHR 0xBE, CHR 0xE8, CHR 0xA1, CHR 0xA8],
     ''    std::cout << "List size: " << list.get_size() << std::endl;'',
     ''    list.print();'',
     ''    '',
     ''    // '' @ [CHR 0xE7, CHR 0xA7, CHR 0xBB, CHR 0xE9, CHR 0x99, CHR 0xA4, CHR 0xE5,
       CHR 0xA4, CHR 0xB4, CHR 0xE9, CHR 0x83, CHR 0xA8, CHR 0xE5, CHR 0x85, CHR 0x83, CHR 0xE7,
       CHR 0xB4, CHR 0xA0],
     ''    list.pop_front();'',
     ''    '',
     ''    // '' @ [CHR 0xE5, CHR 0x86, CHR 0x8D, CHR 0xE6, CHR 0xAC, CHR 0xA1, CHR 0xE6,
       CHR 0x89, CHR 0x93, CHR 0xE5, CHR 0x8D, CHR 0xB0],
     ''    std::cout << "After pop_front, list size: " << list.get_size() << std::endl;'',
     ''    list.print();'',
     ''    '',
     ''    return 0;'',
     ''}'',
     '''']\<close>

text \<open>\<^verbatim>\<open>namespaces.cpp\<close>: 84 newline-terminated lines.\<close>

definition namespaces_cpp :: string where
  \<open>namespaces_cpp = terminated
    [''// namespaces.cpp'',
     ''// C++ '' @ [CHR 0xE5, CHR 0x91, CHR 0xBD, CHR 0xE5, CHR 0x90, CHR 0x8D, CHR 0xE7,
       CHR 0xA9, CHR 0xBA, CHR 0xE9, CHR 0x97, CHR 0xB4, CHR 0xE5, CHR 0x92, CHR 0x8C, CHR 0xE4,
       CHR 0xBD, CHR 0x9C, CHR 0xE7, CHR 0x94, CHR 0xA8, CHR 0xE5, CHR 0x9F, CHR 0x9F, CHR 0xE7,
       CHR 0xA4, CHR 0xBA, CHR 0xE4, CHR 0xBE, CHR 0x8B],
     '''',
     ''#include <iostream>'',
     ''#include <string>'',
     '''',
     ''// '' @ [CHR 0xE5, CHR 0xAE, CHR 0x9A, CHR 0xE4, CHR 0xB9, CHR 0x89, CHR 0xE5, CHR 0x91,
       CHR 0xBD, CHR 0xE5, CHR 0x90, CHR 0x8D, CHR 0xE7, CHR 0xA9, CHR 0xBA, CHR 0xE9, CHR 0x97,
       CHR 0xB4],
     ''namespace math {'',
     ''    const double PI = 3.14159265358979323846;'',
     ''    '',
     ''    double square(double x) {'',
     ''        return x * x;'',
     ''    }'',
     ''    '',
     ''    double cube(double x) {'',
     ''        return x * x * x;'',
     ''    }'',
     ''    '',
     ''    // '' @ [CHR 0xE5, CHR 0xB5, CHR 0x8C, CHR 0xE5, CHR 0xA5, CHR 0x97, CHR 0xE5,
       CHR 0x91, CHR 0xBD, CHR 0xE5, CHR 0x90, CHR 0x8D, CHR 0xE7, CHR 0xA9, CHR 0xBA, CHR 0xE9,
       CHR 0x97, CHR 0xB4],
     ''    namespace geometry {'',
     ''        struct Point {'',
     ''            double x, y;'',
     ''            '',
     ''            Point(double x_val = 0, double y_val = 0) : x(x_val), y(y_val) {}'',
     ''            '',
     ''            double distance(const Point& other) const {'',
     ''                return std::sqrt(square(x - other.x) + square(y - other.y));'',
     ''            }'',
     ''        };'',
     ''        '',
     ''        struct Circle {'',
     ''            Point center;'',
     ''            double radius;'',
     ''            '',
     ''            Circle(const Point& c, double r) : center(c), radius(r) {}'',
     ''            '',
     ''            double area() const {'',
     ''                return PI * square(radius);'',
     ''            }'',
     ''            '',
     ''            double circumference() const {'',
     ''                return 2 * PI * radius;'',
     ''            }'',
     ''        };'',
     ''    }'',
     ''}'',
     '''',
     ''// '' @ [CHR 0xE5, CHR 0x8F, CHR 0xA6, CHR 0xE4, CHR 0xB8, CHR 0x80, CHR 0xE4, CHR 0xB8,
       CHR 0xAA, CHR 0xE5, CHR 0x91, CHR 0xBD, CHR 0xE5, CHR 0x90, CHR 0x8D, CHR 0xE7, CHR 0xA9,
       CHR 0xBA, CHR 0xE9, CHR 0x97, CHR 0xB4],
     ''namespace utils {'',
     ''    void print_separator() {'',
     ''        std::cout << "------------------------------" << std::endl;'',
     ''    }'',
     ''    '',
     ''    template<typename T>'',
     ''    void print_value(const std::string& name, const T& value) {'',
     ''        std::cout << name << " = " << value << std::endl;'',
     ''    }'',
     ''}'',
     '''',
     ''// '' @ [CHR 0xE4, CHR 0xBD, CHR 0xBF, CHR 0xE7, CHR 0x94, CHR 0xA8, CHR 0xE5, CHR 0x91,
       CHR 0xBD, CHR 0xE5, CHR 0x90, CHR 0x8D, CHR 0xE7, CHR 0xA9, CHR 0xBA, CHR 0xE9, CHR 0x97,
       CHR 0xB4, CHR 0xE5, CHR 0x88, CHR 0xAB, CHR 0xE5, CHR 0x90, CHR 0x8D],
     ''namespace geo = math::geometry;'',
     '''',
     ''int main() {'',
     ''    // '' @ [CHR 0xE4, CHR 0xBD, CHR 0xBF, CHR 0xE7, CHR 0x94,
       CHR 0xA8] @ ''math'' @ [CHR 0xE5, CHR 0x91, CHR 0xBD, CHR 0xE5, CHR 0x90, CHR 0x8D,
       CHR 0xE7, CHR 0xA9, CHR 0xBA, CHR 0xE9, CHR 0x97, CHR 0xB4],
     ''    double val = 3.0;'',
     ''    std::cout << "Square of " << val << " = " << math::square(val) << std::endl;'',
     ''    std::cout << "Cube of " << val << " = " << math::cube(val) << std::endl;'',
     ''    '',
     ''    utils::print_separator();'',
     ''    '',
     ''    // '' @ [CHR 0xE4, CHR 0xBD, CHR 0xBF, CHR 0xE7, CHR 0x94, CHR 0xA8, CHR 0xE5,
       CHR 0x87, CHR 0xA0, CHR 0xE4, CHR 0xBD, CHR 0x95, CHR 0xE5, CHR 0x91, CHR 0xBD, CHR 0xE5,
       CHR 0x90, CHR 0x8D, CHR 0xE7, CHR 0xA9, CHR 0xBA, CHR 0xE9, CHR 0x97, CHR 0xB4],
     ''    geo::Point p1(3, 4);'',
     ''    geo::Point p2(6, 8);'',
     ''    '',
     ''    utils::print_value("Distance between points", p1.distance(p2));'',
     ''    '',
     ''    // '' @ [CHR 0xE5, CHR 0x88, CHR 0x9B, CHR 0xE5, CHR 0xBB, CHR 0xBA, CHR 0xE5,
       CHR 0x9C, CHR 0x86],
     ''    geo::Circle circle(p1, 5);'',
     ''    utils::print_value("Circle area", circle.area());'',
     ''    utils::print_value("Circle circumference", circle.circumference());'',
     ''    '',
     ''    return 0;'',
     ''}'',
     '''']\<close>

text \<open>\<^verbatim>\<open>templates.cpp\<close>: 104 newline-terminated lines and a last line with no newline after it.\<close>

definition templates_cpp :: string where
  \<open>templates_cpp = terminated
    [''// templates.cpp'',
     ''// C++ '' @ [CHR 0xE6, CHR 0xA8, CHR 0xA1, CHR 0xE6, CHR 0x9D, CHR 0xBF, CHR 0xE7,
       CHR 0xA4, CHR 0xBA, CHR 0xE4, CHR 0xBE, CHR 0x8B],
     '''',
     ''#include <iostream>'',
     ''#include <vector>'',
     ''#include <string>'',
     '''',
     ''// '' @ [CHR 0xE5, CHR 0x9F, CHR 0xBA, CHR 0xE6, CHR 0x9C, CHR 0xAC, CHR 0xE5, CHR 0x87,
       CHR 0xBD, CHR 0xE6, CHR 0x95, CHR 0xB0, CHR 0xE6, CHR 0xA8, CHR 0xA1, CHR 0xE6, CHR 0x9D,
       CHR 0xBF],
     ''template<typename T>'',
     ''T max(T a, T b) {'',
     ''    return (a > b) ? a : b;'',
     ''}'',
     '''',
     ''// '' @ [CHR 0xE7, CHR 0xB1, CHR 0xBB, CHR 0xE6, CHR 0xA8, CHR 0xA1, CHR 0xE6, CHR 0x9D,
       CHR 0xBF],
     ''template<typename T, int Size>'',
     ''class Array {'',
     ''private:'',
     ''    T data[Size];'',
     ''    '',
     ''public:'',
     ''    Array() {'',
     ''        for (int i = 0; i < Size; i++) {'',
     ''            data[i] = T();'',
     ''        }'',
     ''    }'',
     ''    '',
     ''    T& operator[](int index) {'',
     ''        if (index < 0 || index >= Size) {'',
     ''            throw std::out_of_range("Index out of range");'',
     ''        }'',
     ''        return data[index];'',
     ''    }'',
     ''    '',
     ''    int size() const {'',
     ''        return Size;'',
     ''    }'',
     ''};'',
     '''',
     ''// '' @ [CHR 0xE6, CHR 0xA8, CHR 0xA1, CHR 0xE6, CHR 0x9D, CHR 0xBF, CHR 0xE7, CHR 0x89,
       CHR 0xB9, CHR 0xE5, CHR 0x8C, CHR 0x96],
     ''template<>'',
     ''class Array<bool, 8> {'',
     ''private:'',
     ''    unsigned char data;'',
     ''    '',
     ''public:'',
     ''    Array() : data(0) {}'',
     ''    '',
     ''    bool operator[](int index) {'',
     ''        if (index < 0 || index >= 8) {'',
     ''            throw std::out_of_range("Index out of range");'',
     ''        }'',
     ''        return (data & (1 << index)) != 0;'',
     ''    }'',
     ''    '',
     ''    void set(int index, bool value) {'',
     ''        if (index < 0 || index >= 8) {'',
     ''            throw std::out_of_range("Index out of range");'',
     ''        }'',
     ''        '',
     ''        if (value) {'',
     ''            data |= (1 << index);'',
     ''        } else {'',
     ''            data &= ~(1 << index);'',
     ''        }'',
     ''    }'',
     ''    '',
     ''    int size() const {'',
     ''        return 8;'',
     ''    }'',
     ''};'',
     '''',
     ''// '' @ [CHR 0xE5, CHR 0x8F, CHR 0x98, CHR 0xE5, CHR 0x8F, CHR 0x82, CHR 0xE6, CHR 0xA8,
       CHR 0xA1, CHR 0xE6, CHR 0x9D, CHR 0xBF],
     ''template<typename... Args>'',
     ''void print(Args... args) {'',
     ''    (std::cout << ... << args) << std::endl;'',
     ''}'',
     '''',
     ''int main() {'',
     ''    // '' @ [CHR 0xE4, CHR 0xBD, CHR 0xBF, CHR 0xE7, CHR 0x94, CHR 0xA8, CHR 0xE5,
       CHR 0x87, CHR 0xBD, CHR 0xE6, CHR 0x95, CHR 0xB0, CHR 0xE6, CHR 0xA8, CHR 0xA1, CHR 0xE6,
       CHR 0x9D, CHR 0xBF],
     ''    std::cout << "Max of 10 and 20: " << max(10, 20) << std::endl;'',
     ''    std::cout << "Max of 3.14 and 2.71: " << max(3.14, 2.71) << std::endl;'',
     ''    std::cout << "Max of \'a\' and \'z\': " << max(\'a\', \'z\') << std::endl;'',
     ''    '',
     ''    // '' @ [CHR 0xE4, CHR 0xBD, CHR 0xBF, CHR 0xE7, CHR 0x94, CHR 0xA8, CHR 0xE7,
       CHR 0xB1, CHR 0xBB, CHR 0xE6, CHR 0xA8, CHR 0xA1, CHR 0xE6, CHR 0x9D, CHR 0xBF],
     ''    Array<int, 5> intArray;'',
     ''    intArray[0] = 10;'',
     ''    intArray[1] = 20;'',
     ''    '',
     ''    std::cout << "intArray[0] = " << intArray[0] << std::endl;'',
     ''    std::cout << "intArray[1] = " << intArray[1] << std::endl;'',
     ''    '',
     ''    // '' @ [CHR 0xE4, CHR 0xBD, CHR 0xBF, CHR 0xE7, CHR 0x94, CHR 0xA8, CHR 0xE7,
       CHR 0x89, CHR 0xB9, CHR 0xE5, CHR 0x8C, CHR 0x96, CHR 0xE7, CHR 0x9A, CHR 0x84, CHR 0xE6,
       CHR 0xA8, CHR 0xA1, CHR 0xE6, CHR 0x9D, CHR 0xBF],
     ''    Array<bool, 8> boolArray;'',
     ''    boolArray.set(0, true);'',
     ''    boolArray.set(3, true);'',
     ''    '',
     ''    std::cout << "boolArray[0] = " << boolArray[0] << std::endl;'',
     ''    std::cout << "boolArray[1] = " << boolArray[1] << std::endl;'',
     ''    std::cout << "boolArray[3] = " << boolArray[3] << std::endl;'',
     ''    '',
     ''    // '' @ [CHR 0xE4, CHR 0xBD, CHR 0xBF, CHR 0xE7, CHR 0x94, CHR 0xA8, CHR 0xE5,
       CHR 0x8F, CHR 0x98, CHR 0xE5, CHR 0x8F, CHR 0x82, CHR 0xE6, CHR 0xA8, CHR 0xA1, CHR 0xE6,
       CHR 0x9D, CHR 0xBF],
     ''    print("Hello", ", ", "world", "! ", 123);'',
     ''    '',
     ''    return 0;'']
    @ ''}''\<close>

subsection \<open>Lines of text\<close>

text \<open>
  The lines of a text: every newline ends a line, and text after the last newline is a
  line too. (\<^verbatim>\<open>wc -l\<close> counts newlines only.)
\<close>

fun count_lines :: "nat \<Rightarrow> bool \<Rightarrow> string \<Rightarrow> nat" where
  "count_lines n False [] = n"
| "count_lines n True [] = Suc n"
| "count_lines n pending (c # cs) =
     count_lines (if c = newline then Suc n else n) (c \<noteq> newline) cs"

definition line_count :: "string \<Rightarrow> nat" where
  "line_count s = count_lines 0 False s"

section \<open>Reading the declarations of a sample\<close>

text \<open>
  What a sample declares is read off its text in two passes: the text is cut into tokens,
  and the declarations are read off the tokens. Both passes go through their input once,
  from left to right, with a state; this is the shape of the engine the specification
  describes for such files (its token kinds and declaration nodes are used below), and it
  covers the C++ the samples are written in: free functions, classes and their members,
  templates and specializations, namespaces and aliases. Statements inside function bodies
  are kept as tokens.
\<close>

subsection \<open>Tokens\<close>

text \<open>
  A token is an identifier, a keyword, a number, a string or character literal, or a
  punctuator (the longest one that matches). White space, comments and preprocessor lines
  (from \<open>#\<close> to the end of the line) are skipped. A literal that its line does not close
  is a \<open>LexError\<close>, and so is a comment the text does not close.
\<close>

datatype token =
    Identifier string
  | Keyword string
  | Numeric string
  | StringLit string
  | CharLit string
  | Punctuator string
  | LexError string

text \<open>
  The class of a character at the start of a token. A letter is an ASCII letter or the
  underscore; a word is letters and digits, a number is a digit followed by letters,
  digits and dots.
\<close>

datatype char_class = Space | Letter | Digit | Quote | Hash | Other

definition is_digit :: "char \<Rightarrow> bool" where
  "is_digit c = (let n = (of_char c :: nat) in 48 \<le> n \<and> n \<le> 57)"

definition is_letter :: "char \<Rightarrow> bool" where
  "is_letter c =
     (let n = (of_char c :: nat) in (97 \<le> n \<and> n \<le> 122) \<or> (65 \<le> n \<and> n \<le> 90) \<or> n = 95)"

definition is_space :: "char \<Rightarrow> bool" where
  "is_space c = (c = CHR '' '' \<or> c = newline \<or> c = CHR 0x09 \<or> c = CHR 0x0D)"

definition classify :: "char \<Rightarrow> char_class" where
  "classify c =
     (if is_space c then Space
      else if is_letter c then Letter
      else if is_digit c then Digit
      else if c = CHR 0x22 \<or> c = CHR 0x27 then Quote
      else if c = CHR ''#'' then Hash
      else Other)"

definition is_ident_char :: "char \<Rightarrow> bool" where
  "is_ident_char c = (is_letter c \<or> is_digit c)"

definition is_number_char :: "char \<Rightarrow> bool" where
  "is_number_char c = (is_letter c \<or> is_digit c \<or> c = CHR ''.'')"

definition cpp_keywords :: "string list" where
  "cpp_keywords =
     [''int'', ''return'', ''if'', ''else'', ''while'', ''for'', ''void'', ''const'', ''class'',
      ''struct'', ''public'', ''private'', ''protected'', ''template'', ''typename'',
      ''namespace'', ''double'', ''bool'', ''char'', ''unsigned'', ''auto'', ''operator'',
      ''throw'', ''nullptr'', ''true'', ''false'', ''using'', ''float'', ''long'', ''short'',
      ''signed'', ''static'', ''virtual'', ''new'', ''delete'', ''this'', ''enum'', ''typedef'',
      ''do'', ''break'', ''continue'', ''switch'', ''case'', ''default'', ''try'', ''catch'',
      ''friend'', ''inline'', ''sizeof'', ''union'', ''extern'', ''goto'', ''volatile'',
      ''mutable'', ''explicit'', ''constexpr'', ''noexcept'', ''override'', ''final'']"

definition word_token :: "string \<Rightarrow> token" where
  "word_token w = (if w \<in> set cpp_keywords then Keyword w else Identifier w)"

definition punctuators :: "string list" where
  "punctuators =
     [''...'', ''<<='', ''>>='', ''->*'',
      ''::'', ''->'', ''<<'', ''>>'', ''<='', ''>='', ''=='', ''!='', ''&&'', ''||'', ''++'', ''--'',
      ''+='', ''-='', ''*='', ''/='', ''%='', ''&='', ''|='', ''^='', ''.*'']"

text \<open>
  The lexer reads one character at a time. Its mode says what it is in the middle of: a
  word or a number (the characters so far, last first), a quoted literal (its quote, its
  characters so far, and whether a backslash came last), a punctuator (its characters so
  far), a comment to the end of the line, or a block comment (and whether a \<open>*\<close> came
  last). A character that cannot continue the token ends it and is read again as the
  start of the next one. The tokens so far are kept last first.
\<close>

datatype lex_mode =
    Start
  | InWord string
  | InNumber string
  | InQuoted char string bool
  | InPunct string
  | LineComment
  | BlockComment bool

datatype quote_event = QEscaped | QBackslash | QClose | QNewline | QOrdinary

definition quote_event :: "char \<Rightarrow> bool \<Rightarrow> char \<Rightarrow> quote_event" where
  "quote_event q esc c =
     (if c = newline then QNewline
      else if esc then QEscaped
      else if c = CHR 0x5C then QBackslash
      else if c = q then QClose
      else QOrdinary)"

text \<open>
  A punctuator grows while it stays the beginning of a punctuator of the list (\<open>..\<close> may
  grow into \<open>...\<close>, and is two dots otherwise). \<open>//\<close> and \<open>/*\<close> start comments.
\<close>

datatype punct_event = PLineComment | PBlockComment | PExtend | PEmit

definition punct_event :: "string \<Rightarrow> char \<Rightarrow> punct_event" where
  "punct_event p c =
     (if p = ''/'' \<and> c = CHR ''/'' then PLineComment
      else if p = ''/'' \<and> c = CHR ''*'' then PBlockComment
      else if p @ [c] \<in> set punctuators \<or> p @ [c] = ''..'' then PExtend
      else PEmit)"

definition literal_token :: "char \<Rightarrow> string \<Rightarrow> token" where
  "literal_token q body = (if q = CHR 0x22 then StringLit body else CharLit body)"

fun emit_punct :: "bool \<Rightarrow> string \<Rightarrow> token list \<Rightarrow> token list" where
  "emit_punct True p acc = Punctuator ''.'' # Punctuator ''.'' # acc"
| "emit_punct False p acc = Punctuator p # acc"

fun start_char :: "char_class \<Rightarrow> char \<Rightarrow> token list \<Rightarrow> lex_mode \<times> token list" where
  "start_char Space c acc = (Start, acc)"
| "start_char Letter c acc = (InWord [c], acc)"
| "start_char Digit c acc = (InNumber [c], acc)"
| "start_char Quote c acc = (InQuoted c [] False, acc)"
| "start_char Hash c acc = (LineComment, acc)"
| "start_char Other c acc = (InPunct [c], acc)"

fun word_char :: "bool \<Rightarrow> string \<Rightarrow> char \<Rightarrow> token list \<Rightarrow> lex_mode \<times> token list" where
  "word_char True w c acc = (InWord (c # w), acc)"
| "word_char False w c acc = start_char (classify c) c (word_token (rev w) # acc)"

fun number_char :: "bool \<Rightarrow> string \<Rightarrow> char \<Rightarrow> token list \<Rightarrow> lex_mode \<times> token list" where
  "number_char True w c acc = (InNumber (c # w), acc)"
| "number_char False w c acc = start_char (classify c) c (Numeric (rev w) # acc)"

fun quoted_char ::
  "quote_event \<Rightarrow> char \<Rightarrow> string \<Rightarrow> char \<Rightarrow> token list \<Rightarrow> lex_mode \<times> token list" where
  "quoted_char QEscaped q b c acc = (InQuoted q (c # b) False, acc)"
| "quoted_char QBackslash q b c acc = (InQuoted q (c # b) True, acc)"
| "quoted_char QClose q b c acc = (Start, literal_token q (rev b) # acc)"
| "quoted_char QNewline q b c acc = (Start, LexError (q # rev b) # acc)"
| "quoted_char QOrdinary q b c acc = (InQuoted q (c # b) False, acc)"

fun punct_char ::
  "punct_event \<Rightarrow> string \<Rightarrow> char \<Rightarrow> token list \<Rightarrow> lex_mode \<times> token list" where
  "punct_char PLineComment p c acc = (LineComment, acc)"
| "punct_char PBlockComment p c acc = (BlockComment False, acc)"
| "punct_char PExtend p c acc = (InPunct (p @ [c]), acc)"
| "punct_char PEmit p c acc = start_char (classify c) c (emit_punct (p = ''..'') p acc)"

fun line_comment_char :: "bool \<Rightarrow> token list \<Rightarrow> lex_mode \<times> token list" where
  "line_comment_char True acc = (Start, acc)"
| "line_comment_char False acc = (LineComment, acc)"

fun block_comment_char :: "bool \<Rightarrow> bool \<Rightarrow> token list \<Rightarrow> lex_mode \<times> token list" where
  "block_comment_char True star acc = (Start, acc)"
| "block_comment_char False star acc = (BlockComment star, acc)"

fun lex_step :: "lex_mode \<times> token list \<Rightarrow> char \<Rightarrow> lex_mode \<times> token list" where
  "lex_step (Start, acc) c = start_char (classify c) c acc"
| "lex_step (InWord w, acc) c = word_char (is_ident_char c) w c acc"
| "lex_step (InNumber w, acc) c = number_char (is_number_char c) w c acc"
| "lex_step (InQuoted q b esc, acc) c = quoted_char (quote_event q esc c) q b c acc"
| "lex_step (InPunct p, acc) c = punct_char (punct_event p c) p c acc"
| "lex_step (LineComment, acc) c = line_comment_char (c = newline) acc"
| "lex_step (BlockComment star, acc) c =
     block_comment_char (star \<and> c = CHR ''/'') (c = CHR ''*'') acc"

fun lex_finish :: "lex_mode \<times> token list \<Rightarrow> token list" where
  "lex_finish (Start, acc) = acc"
| "lex_finish (InWord w, acc) = word_token (rev w) # acc"
| "lex_finish (InNumber w, acc) = Numeric (rev w) # acc"
| "lex_finish (InQuoted q b esc, acc) = LexError (q # rev b) # acc"
| "lex_finish (InPunct p, acc) = emit_punct (p = ''..'') p acc"
| "lex_finish (LineComment, acc) = acc"
| "lex_finish (BlockComment star, acc) = LexError ''/*'' # acc"

definition lex :: "string \<Rightarrow> token list" where
  "lex s = rev (lex_finish (foldl lex_step (Start, []) s))"

subsection \<open>Declarations\<close>

text \<open>
  A declaration carries its scope path (the names of the namespaces and classes around
  it, outermost first) and its name. A class has its template parameters, the arguments
  of a specialization (\<open>None\<close> when the name has no angle brackets) and its base classes;
  \<open>template_intro\<close> says whether the declaration starts with \<open>template<...>\<close>, which is
  what tells \<open>template<>\<close> from no introducer at all. A function has its return type, its
  parameters, whether a template parameter is a pack, its access when it is a member, and
  the tokens of its body. Types, parameters and arguments are kept as their tokens. A
  variable at namespace scope is a \<open>FieldDecl\<close> too.

  A template parameter is a type parameter (\<open>typename T\<close>), a pack
  (\<open>typename... Args\<close>), or a non-type parameter with its type (\<open>int Size\<close>).
\<close>

datatype access = Public | Private | Protected

datatype TemplateParam =
    TypeParam string
  | NonTypeParam "token list" string
  | PackParam string

datatype decl =
    NamespaceDecl (scope: "string list") (name: string)
  | NamespaceAlias (scope: "string list") (alias_name: string) (target_path: "string list")
  | ClassDecl (scope: "string list") (name: string) (template_intro: bool)
      (template_params: "TemplateParam list") (specialization_args: "token list list option")
      (bases: "token list list")
  | FunctionDecl (scope: "string list") (name: string) (template_intro: bool)
      (template_params: "TemplateParam list") (return_type: "token list")
      (params: "token list list") (is_variadic_template: bool) (member_access: access)
      (body: "token list option")
  | FieldDecl (scope: "string list") (name: string) (field_type: "token list")
      (member_access: access)

fun tok_text :: "token \<Rightarrow> string" where
  "tok_text (Identifier s) = s"
| "tok_text (Keyword s) = s"
| "tok_text (Numeric s) = s"
| "tok_text (StringLit s) = s"
| "tok_text (CharLit s) = s"
| "tok_text (Punctuator s) = s"
| "tok_text (LexError s) = s"

fun is_identifier :: "token \<Rightarrow> bool" where
  "is_identifier (Identifier s) = True"
| "is_identifier t = False"

text \<open>
  The tokens after an opening \<open><\<close> up to the \<open>>\<close> that closes it, and the tokens after
  that. A \<open>>>\<close> closes two brackets: it is split, and where only its first half belongs to
  the list the second half stays in front of the rest. A statement boundary before the
  closing bracket means that the \<open><\<close> did not open a template argument list.
\<close>

fun take_angle :: "nat \<Rightarrow> token list \<Rightarrow> token list \<Rightarrow> (token list \<times> token list) option" where
  "take_angle d acc [] = None"
| "take_angle d acc (t # ts) =
     (if t = Punctuator ''<'' then take_angle (Suc d) (t # acc) ts
      else if t = Punctuator ''>'' then
        (case d of 0 \<Rightarrow> Some (rev acc, ts) | Suc d' \<Rightarrow> take_angle d' (t # acc) ts)
      else if t = Punctuator ''>>'' then
        (case d of
           0 \<Rightarrow> Some (rev acc, Punctuator ''>'' # ts)
         | Suc 0 \<Rightarrow> Some (rev (Punctuator ''>'' # acc), ts)
         | Suc (Suc d') \<Rightarrow> take_angle d' (Punctuator ''>'' # Punctuator ''>'' # acc) ts)
      else if t = Punctuator '';'' \<or> t = Punctuator ''{'' \<or> t = Punctuator ''}'' then None
      else take_angle d (t # acc) ts)"

text \<open>
  A token list split at its commas, those inside brackets left alone. An empty list has
  no parts.
\<close>

fun split_commas :: "nat \<Rightarrow> token list \<Rightarrow> token list list \<Rightarrow> token list \<Rightarrow> token list list" where
  "split_commas d cur acc [] = rev (rev cur # acc)"
| "split_commas d cur acc (t # ts) =
     (if t = Punctuator '','' \<and> d = 0 then split_commas d [] (rev cur # acc) ts
      else if t \<in> {Punctuator ''<'', Punctuator ''('', Punctuator ''['', Punctuator ''{''}
        then split_commas (Suc d) (t # cur) acc ts
      else if t \<in> {Punctuator ''>'', Punctuator '')'', Punctuator '']'', Punctuator ''}''}
        then split_commas (d - 1) (t # cur) acc ts
      else if t = Punctuator ''>>'' then split_commas (d - 2) (t # cur) acc ts
      else split_commas d (t # cur) acc ts)"

definition comma_list :: "token list \<Rightarrow> token list list" where
  "comma_list ts = (if ts = [] then [] else split_commas 0 [] [] ts)"

text \<open>One template parameter: \<open>typename T\<close>, \<open>typename... Args\<close>, or a type and a name.\<close>

definition template_param :: "token list \<Rightarrow> TemplateParam" where
  "template_param ts =
     (if ts = [] then TypeParam ''''
      else if hd ts \<in> {Keyword ''typename'', Keyword ''class''} then
        (if Punctuator ''...'' \<in> set ts then PackParam (tok_text (last ts))
         else TypeParam (tok_text (last ts)))
      else NonTypeParam (butlast ts) (tok_text (last ts)))"

fun is_pack :: "TemplateParam \<Rightarrow> bool" where
  "is_pack (PackParam n) = True"
| "is_pack p = False"

text \<open>
  A declaration head with its \<open>template<...>\<close> introducer taken off: whether there was
  one, its parameters, and the rest of the head.
\<close>

definition template_prefix :: "token list \<Rightarrow> bool \<times> TemplateParam list \<times> token list" where
  "template_prefix hd_toks =
     (case hd_toks of
        t1 # t2 # ts \<Rightarrow>
          (if t1 = Keyword ''template'' \<and> t2 = Punctuator ''<'' then
             (case take_angle 0 [] ts of
                None \<Rightarrow> (False, [], hd_toks)
              | Some (ps, rest) \<Rightarrow> (True, map template_param (comma_list ps), rest))
           else (False, [], hd_toks))
      | _ \<Rightarrow> (False, [], hd_toks))"

text \<open>The identifiers of a qualified path \<open>a::b::c\<close>.\<close>

definition path_of :: "token list \<Rightarrow> string list" where
  "path_of ts = map tok_text (filter is_identifier ts)"

text \<open>The base classes after the \<open>:\<close> of a class head, access keywords dropped.\<close>

definition bases_of :: "token list \<Rightarrow> token list list" where
  "bases_of ts =
     (case dropWhile (\<lambda>t. t \<noteq> Punctuator '':'') ts of
        [] \<Rightarrow> []
      | c # bs \<Rightarrow>
          map (filter (\<lambda>t. t \<notin> {Keyword ''public'', Keyword ''private'', Keyword ''protected'',
                                 Keyword ''virtual''}))
            (comma_list bs))"

text \<open>
  A class head after its introducer: \<open>class\<close> or \<open>struct\<close>, the name, the arguments of a
  specialization in angle brackets if there are any, and the base classes.
\<close>

definition class_decl :: "string list \<Rightarrow> token list \<Rightarrow> decl" where
  "class_decl sc hd_toks =
     (case template_prefix hd_toks of
        (intro, tps, rest) \<Rightarrow>
          (case rest of
             k # n # post \<Rightarrow>
               (case post of
                  a # args \<Rightarrow>
                    (if a = Punctuator ''<'' then
                       (case take_angle 0 [] args of
                          None \<Rightarrow> ClassDecl sc (tok_text n) intro tps None (bases_of post)
                        | Some (inside, others) \<Rightarrow>
                            ClassDecl sc (tok_text n) intro tps (Some (comma_list inside))
                              (bases_of others))
                     else ClassDecl sc (tok_text n) intro tps None (bases_of post))
                | [] \<Rightarrow> ClassDecl sc (tok_text n) intro tps None [])
           | _ \<Rightarrow> ClassDecl sc [] intro tps None []))"

definition class_name :: "token list \<Rightarrow> string" where
  "class_name hd_toks =
     (case template_prefix hd_toks of
        (intro, tps, rest) \<Rightarrow> (case rest of k # n # post \<Rightarrow> tok_text n | _ \<Rightarrow> ''''))"

text \<open>
  The tokens between an opening parenthesis (already taken) and the one that closes it.
\<close>

fun take_paren :: "nat \<Rightarrow> token list \<Rightarrow> token list \<Rightarrow> token list" where
  "take_paren d acc [] = rev acc"
| "take_paren d acc (t # ts) =
     (if t = Punctuator ''('' then take_paren (Suc d) (t # acc) ts
      else if t = Punctuator '')'' then
        (case d of 0 \<Rightarrow> rev acc | Suc d' \<Rightarrow> take_paren d' (t # acc) ts)
      else take_paren d (t # acc) ts)"

text \<open>
  The name a function head declares: the token before the first \<open>(\<close>, or \<open>operator\<close>
  with the operator's tokens.
\<close>

definition function_name :: "token list \<Rightarrow> string" where
  "function_name pre =
     (case dropWhile (\<lambda>t. t \<noteq> Keyword ''operator'') pre of
        [] \<Rightarrow> (if pre = [] then '''' else tok_text (last pre))
      | ops \<Rightarrow> concat (map tok_text ops))"

definition function_return_type :: "token list \<Rightarrow> token list" where
  "function_return_type pre =
     (case dropWhile (\<lambda>t. t \<noteq> Keyword ''operator'') pre of
        [] \<Rightarrow> butlast pre
      | ops \<Rightarrow> takeWhile (\<lambda>t. t \<noteq> Keyword ''operator'') pre)"

definition function_decl :: "string list \<Rightarrow> access \<Rightarrow> token list \<Rightarrow> token list option \<Rightarrow> decl" where
  "function_decl sc acc hd_toks body_toks =
     (case template_prefix hd_toks of
        (intro, ps, rest) \<Rightarrow>
          (let pre = takeWhile (\<lambda>t. t \<noteq> Punctuator ''('') rest;
               post = drop 1 (dropWhile (\<lambda>t. t \<noteq> Punctuator ''('') rest)
           in FunctionDecl sc (function_name pre) intro ps
                (function_return_type pre) (comma_list (take_paren 0 [] post))
                (list_ex is_pack ps) acc body_toks))"

text \<open>
  The fields a member declaration ending in \<open>;\<close> declares: the first declarator's tokens
  before its name are the type of every one of them.
\<close>

definition declarator_name :: "token list \<Rightarrow> string" where
  "declarator_name ts =
     (let core = takeWhile (\<lambda>t. t \<notin> {Punctuator ''['', Punctuator ''=''}) ts
      in if core = [] then '''' else tok_text (last core))"

definition declarator_type :: "token list \<Rightarrow> token list" where
  "declarator_type ts = butlast (takeWhile (\<lambda>t. t \<notin> {Punctuator ''['', Punctuator ''=''}) ts)"

definition field_decls :: "string list \<Rightarrow> access \<Rightarrow> token list \<Rightarrow> decl list" where
  "field_decls sc acc hd_toks =
     (case comma_list hd_toks of
        [] \<Rightarrow> []
      | d # ds \<Rightarrow>
          map (\<lambda>x. FieldDecl sc (declarator_name x) (declarator_type d) acc) (d # ds))"

text \<open>
  The kind of a declaration head: a namespace, a class (\<open>class\<close> or \<open>struct\<close> after the
  template introducer, if any), a function (it has a parameter list), or something else.
\<close>

datatype head_kind = HNamespace | HClass | HFunction | HOther

definition head_kind :: "token list \<Rightarrow> head_kind" where
  "head_kind hd_toks =
     (case template_prefix hd_toks of
        (intro, ps, rest) \<Rightarrow>
          (case rest of
             [] \<Rightarrow> HOther
           | k # others \<Rightarrow>
               if k = Keyword ''namespace'' then HNamespace
               else if k = Keyword ''class'' \<or> k = Keyword ''struct'' then HClass
               else if Punctuator ''('' \<in> set rest then HFunction
               else HOther))"

text \<open>What a declaration head that ends in \<open>;\<close> declares.\<close>

definition is_alias_head :: "token list \<Rightarrow> bool" where
  "is_alias_head hd_toks =
     (case hd_toks of
        k # n # e # p \<Rightarrow> k = Keyword ''namespace'' \<and> is_identifier n \<and> e = Punctuator ''=''
      | _ \<Rightarrow> False)"

definition is_prototype :: "token list \<Rightarrow> bool" where
  "is_prototype hd_toks =
     (Punctuator ''('' \<in> set (takeWhile (\<lambda>t. t \<noteq> Punctuator ''='') hd_toks))"

definition semi_decls :: "string list \<Rightarrow> access \<Rightarrow> token list \<Rightarrow> decl list" where
  "semi_decls sc acc hd_toks =
     (if hd_toks = [] then []
      else if is_alias_head hd_toks then
        [NamespaceAlias sc (tok_text (hd_toks ! 1)) (path_of (drop 3 hd_toks))]
      else if hd hd_toks \<in> {Keyword ''using'', Keyword ''typedef'', Keyword ''friend''} then []
      else if head_kind hd_toks = HClass then [class_decl sc hd_toks]
      else if is_prototype hd_toks then [function_decl sc acc hd_toks None]
      else field_decls sc acc hd_toks)"

subsection \<open>The declarations of a translation unit\<close>

text \<open>
  One pass over the tokens. Outside function bodies the tokens of a declaration head are
  collected up to \<open>{\<close> or \<open>;\<close>: a namespace or class head opens a scope, any other head
  followed by \<open>{\<close> is a function definition whose body runs to the matching \<open>}\<close>, and a
  head followed by \<open>;\<close> is an alias, a prototype or fields. An access specifier
  (\<open>public:\<close>) sets the access of the members after it.
\<close>

datatype frame = NamespaceF string | ClassF string access

fun frame_name :: "frame \<Rightarrow> string" where
  "frame_name (NamespaceF n) = n"
| "frame_name (ClassF n a) = n"

definition scope_of :: "frame list \<Rightarrow> string list" where
  "scope_of fs = rev (map frame_name fs)"

fun current_access :: "frame list \<Rightarrow> access" where
  "current_access (ClassF n a # fs) = a"
| "current_access fs = Public"

fun set_access :: "access \<Rightarrow> frame list \<Rightarrow> frame list" where
  "set_access a (ClassF n b # fs) = ClassF n a # fs"
| "set_access a fs = fs"

datatype scan_state =
    InDecl "frame list" "token list" "decl list"
  | InBody "frame list" nat "token list" "token list" "decl list"

datatype tok_class = TOpen | TClose | TSemi | TColon | TOther

definition tok_class :: "token \<Rightarrow> tok_class" where
  "tok_class t =
     (if t = Punctuator ''{'' then TOpen
      else if t = Punctuator ''}'' then TClose
      else if t = Punctuator '';'' then TSemi
      else if t = Punctuator '':'' then TColon
      else TOther)"

definition namespace_name :: "token list \<Rightarrow> string" where
  "namespace_name hd_toks = (case hd_toks of k # n # others \<Rightarrow> tok_text n | _ \<Rightarrow> [])"

definition class_default_access :: "token list \<Rightarrow> access" where
  "class_default_access hd_toks =
     (if Keyword ''struct'' \<in> set (snd (snd (template_prefix hd_toks))) then Public else Private)"

definition access_of :: "token \<Rightarrow> access" where
  "access_of t =
     (if t = Keyword ''private'' then Private
      else if t = Keyword ''protected'' then Protected
      else Public)"

definition is_access_head :: "token list \<Rightarrow> bool" where
  "is_access_head h =
     (case h of
        [k] \<Rightarrow> k = Keyword ''public'' \<or> k = Keyword ''private'' \<or> k = Keyword ''protected''
      | _ \<Rightarrow> False)"

definition body_decls :: "string list \<Rightarrow> access \<Rightarrow> token list \<Rightarrow> token list \<Rightarrow> decl list" where
  "body_decls sc acc hd_toks body_toks =
     (if hd_toks = [] then [] else [function_decl sc acc hd_toks (Some body_toks)])"

fun open_head :: "head_kind \<Rightarrow> frame list \<Rightarrow> token list \<Rightarrow> decl list \<Rightarrow> scan_state" where
  "open_head HNamespace fs h out =
     InDecl (NamespaceF (namespace_name h) # fs) []
       (NamespaceDecl (scope_of fs) (namespace_name h) # out)"
| "open_head HClass fs h out =
     InDecl (ClassF (class_name h) (class_default_access h) # fs) []
       (class_decl (scope_of fs) h # out)"
| "open_head HFunction fs h out = InBody fs 0 h [] out"
| "open_head HOther fs h out = InBody fs 0 [] [] out"

fun colon_head :: "bool \<Rightarrow> frame list \<Rightarrow> token list \<Rightarrow> decl list \<Rightarrow> token \<Rightarrow> scan_state" where
  "colon_head True fs h out t = InDecl (set_access (access_of (hd h)) fs) [] out"
| "colon_head False fs h out t = InDecl fs (t # h) out"

fun decl_tok :: "tok_class \<Rightarrow> frame list \<Rightarrow> token list \<Rightarrow> decl list \<Rightarrow> token \<Rightarrow> scan_state" where
  "decl_tok TOpen fs h out t = open_head (head_kind (rev h)) fs (rev h) out"
| "decl_tok TClose fs h out t = InDecl (drop 1 fs) [] out"
| "decl_tok TSemi fs h out t =
     InDecl fs [] (rev (semi_decls (scope_of fs) (current_access fs) (rev h)) @ out)"
| "decl_tok TColon fs h out t = colon_head (is_access_head h) fs h out t"
| "decl_tok TOther fs h out t = InDecl fs (t # h) out"

fun close_body ::
  "nat \<Rightarrow> frame list \<Rightarrow> token list \<Rightarrow> token list \<Rightarrow> decl list \<Rightarrow> token \<Rightarrow> scan_state" where
  "close_body 0 fs h b out t =
     InDecl fs [] (body_decls (scope_of fs) (current_access fs) h (rev b) @ out)"
| "close_body (Suc n) fs h b out t = InBody fs n h (t # b) out"

fun body_tok ::
  "tok_class \<Rightarrow> frame list \<Rightarrow> nat \<Rightarrow> token list \<Rightarrow> token list \<Rightarrow> decl list \<Rightarrow> token \<Rightarrow> scan_state" where
  "body_tok TOpen fs n h b out t = InBody fs (Suc n) h (t # b) out"
| "body_tok TClose fs n h b out t = close_body n fs h b out t"
| "body_tok TSemi fs n h b out t = InBody fs n h (t # b) out"
| "body_tok TColon fs n h b out t = InBody fs n h (t # b) out"
| "body_tok TOther fs n h b out t = InBody fs n h (t # b) out"

fun outline_step :: "scan_state \<Rightarrow> token \<Rightarrow> scan_state" where
  "outline_step (InDecl fs h out) t = decl_tok (tok_class t) fs h out t"
| "outline_step (InBody fs n h b out) t = body_tok (tok_class t) fs n h b out t"

fun decls_of :: "scan_state \<Rightarrow> decl list" where
  "decls_of (InDecl fs h out) = rev out"
| "decls_of (InBody fs n h b out) = rev out"

definition outline :: "token list \<Rightarrow> decl list" where
  "outline ts = decls_of (foldl outline_step (InDecl [] [] []) ts)"

definition declarations :: "string \<Rightarrow> decl list" where
  "declarations src = outline (lex src)"

subsection \<open>Names and references\<close>

fun is_namespace :: "decl \<Rightarrow> bool" where
  "is_namespace (NamespaceDecl sc n) = True"
| "is_namespace d = False"

fun is_alias :: "decl \<Rightarrow> bool" where
  "is_alias (NamespaceAlias sc a p) = True"
| "is_alias d = False"

fun is_class :: "decl \<Rightarrow> bool" where
  "is_class (ClassDecl sc n i tps sa bs) = True"
| "is_class d = False"

fun is_function :: "decl \<Rightarrow> bool" where
  "is_function (FunctionDecl sc n i tps r ps v a b) = True"
| "is_function d = False"

fun is_field :: "decl \<Rightarrow> bool" where
  "is_field (FieldDecl sc n ty a) = True"
| "is_field d = False"

fun decl_name :: "decl \<Rightarrow> string" where
  "decl_name (NamespaceAlias sc a p) = a"
| "decl_name d = name d"

text \<open>The absolute scope path of a declaration: the scopes around it, then its name.\<close>

definition decl_path :: "decl \<Rightarrow> string list" where
  "decl_path d = scope d @ [decl_name d]"

fun is_class_named :: "string \<Rightarrow> decl \<Rightarrow> bool" where
  "is_class_named n (ClassDecl sc m i tps sa bs) = (m = n)"
| "is_class_named n d = False"

text \<open>
  The model invariant of class declarations: specialization arguments that are present
  and not empty come with an empty template parameter list.
\<close>

fun full_specialization_ok :: "decl \<Rightarrow> bool" where
  "full_specialization_ok (ClassDecl sc m i tps sa bs) = (sa = None \<or> sa = Some [] \<or> tps = [])"
| "full_specialization_ok d = True"

text \<open>
  The paths a token list mentions: each maximal run \<open>a::b::c\<close> of identifiers joined by
  \<open>::\<close>, in order of appearance.
\<close>

fun paths_from :: "string list \<Rightarrow> bool \<Rightarrow> token list \<Rightarrow> string list list" where
  "paths_from cur sep [] = (if cur = [] then [] else [rev cur])"
| "paths_from cur sep (Identifier s # ts) =
     (if sep then paths_from (s # cur) False ts
      else if cur = [] then paths_from [s] False ts
      else rev cur # paths_from [s] False ts)"
| "paths_from cur sep (Punctuator p # ts) =
     (if p = ''::'' \<and> cur \<noteq> [] \<and> \<not> sep then paths_from cur True ts
      else if cur = [] then paths_from [] False ts
      else rev cur # paths_from [] False ts)"
| "paths_from cur sep (t # ts) =
     (if cur = [] then paths_from [] False ts else rev cur # paths_from [] False ts)"

definition paths_in :: "token list \<Rightarrow> string list list" where
  "paths_in ts = paths_from [] False ts"

text \<open>The tokens of a declaration in which it can refer to other declarations.\<close>

fun decl_tokens :: "decl \<Rightarrow> token list" where
  "decl_tokens (FunctionDecl sc n i tps r ps v a b) =
     r @ [Punctuator ''(''] @ concat (map (\<lambda>p. p @ [Punctuator '','']) ps) @ [Punctuator '')'']
       @ (case b of None \<Rightarrow> [] | Some ts \<Rightarrow> ts)"
| "decl_tokens (FieldDecl sc n ty a) = ty"
| "decl_tokens (ClassDecl sc n i tps sa bs) = concat (map (\<lambda>p. p @ [Punctuator '','']) bs)"
| "decl_tokens d = []"

text \<open>The qualified references (two segments or more) of a declaration.\<close>

definition references :: "decl \<Rightarrow> string list list" where
  "references d = filter (\<lambda>p. 2 \<le> length p) (paths_in (decl_tokens d))"

subsection \<open>Namespace aliases\<close>

text \<open>The enclosing chain of a scope, innermost first, ending with the global scope.\<close>

fun enclosing :: "string list \<Rightarrow> string list list" where
  "enclosing [] = [[]]"
| "enclosing (s # ss) = (s # ss) # enclosing (butlast (s # ss))"

text \<open>
  The alias a name denotes where it is used: the first alias declaration of that name in
  the enclosing chain of the current scope.
\<close>

definition lookup_alias :: "decl list \<Rightarrow> string list \<Rightarrow> string \<Rightarrow> decl option" where
  "lookup_alias ds cur a =
     find (\<lambda>d. is_alias d \<and> alias_name d = a \<and> scope d \<in> set (enclosing cur)) ds"

text \<open>Alias substitution on the leading segment of a path.\<close>

definition substitute_alias :: "decl list \<Rightarrow> string list \<Rightarrow> string list \<Rightarrow> string list" where
  "substitute_alias ds cur p =
     (case p of
        [] \<Rightarrow> []
      | a # rest \<Rightarrow>
          (case lookup_alias ds cur a of
             None \<Rightarrow> p
           | Some d \<Rightarrow> scope d @ target_path d @ rest))"

subsection \<open>Calls with explicit template arguments\<close>

text \<open>
  A call whose callee is followed by \<open><...>(\<close>: the callee (the identifier before the
  \<open><\<close>, with the object or scope it is selected from when there is one) and the template
  arguments. The \<open><\<close> opens an argument list only if its \<open>>\<close> comes before the end of
  the statement and a \<open>(\<close> follows.
\<close>

definition callee_of :: "token \<Rightarrow> token \<Rightarrow> token \<Rightarrow> token list" where
  "callee_of r s f =
     (if is_identifier r \<and> s \<in> {Punctuator ''.'', Punctuator ''->'', Punctuator ''::''}
      then [r, s, f] else [f])"

fun template_calls :: "token list \<Rightarrow> (token list \<times> token list list) list" where
  "template_calls (r # s # f # l # ts) =
     (if is_identifier f \<and> l = Punctuator ''<'' then
        (case take_angle 0 [] ts of
           Some (args, p # others) \<Rightarrow>
             (if p = Punctuator ''('' then [(callee_of r s f, comma_list args)] else [])
         | _ \<Rightarrow> [])
      else [])
     @ template_calls (s # f # l # ts)"
| "template_calls ts = []"

definition calls_with_template_args :: "token list \<Rightarrow> (token list \<times> token list list) list" where
  "calls_with_template_args b = template_calls (Punctuator '';'' # Punctuator '';'' # b)"

text \<open>
  The type a body declares for a local variable: the identifier in front of the
  variable's name where the two first stand side by side.
\<close>

fun local_type :: "string \<Rightarrow> token list \<Rightarrow> string option" where
  "local_type v (Identifier ty # Identifier w # ts) =
     (if w = v then Some ty else local_type v (Identifier w # ts))"
| "local_type v (t # ts) = local_type v ts"
| "local_type v [] = None"

text \<open>The member functions of a class with a given name, by the class's path.\<close>

definition member_functions :: "decl list \<Rightarrow> string list \<Rightarrow> string \<Rightarrow> decl list" where
  "member_functions ds cls f =
     filter (\<lambda>d. is_function d \<and> scope d = cls \<and> name d = f) ds"

definition body_of :: "decl list \<Rightarrow> string list \<Rightarrow> string \<Rightarrow> token list" where
  "body_of ds sc f =
     (case find (\<lambda>d. is_function d \<and> scope d = sc \<and> name d = f) ds of
        Some (FunctionDecl sc' n i tps r ps v a (Some b)) \<Rightarrow> b
      | _ \<Rightarrow> [])"

text \<open>
  A function declaration without its body, so that a declaration can be written down
  without the tokens of its statements.
\<close>

fun signature :: "decl \<Rightarrow> decl" where
  "signature (FunctionDecl sc n i tps r ps v a b) = FunctionDecl sc n i tps r ps v a None"
| "signature d = d"

text \<open>
  What a member call \<open>obj.f<args>(...)\<close> in a function body refers to: the type the body
  declares for \<open>obj\<close>, and the signatures of the member functions \<open>f\<close> of that class. The
  explicit template arguments are allowed only if one of those is a template.
\<close>

definition template_call_allowed :: "decl list \<Rightarrow> token list \<Rightarrow> token list \<Rightarrow> bool" where
  "template_call_allowed ds b callee =
     (case callee of
        [r, s, f] \<Rightarrow>
          (case local_type (tok_text r) b of
             None \<Rightarrow> False
           | Some ty \<Rightarrow> list_ex template_intro (member_functions ds [ty] (tok_text f)))
      | _ \<Rightarrow> False)"

subsection \<open>Access specifiers\<close>

text \<open>
  An access specifier is an access keyword with \<open>:\<close> right after it, standing in a class
  body where a member declaration would start: \<open>public:\<close>, \<open>private:\<close> or
  \<open>protected:\<close>. (In a list of base classes the keyword is followed by a class name, not
  by \<open>:\<close>.) This is the place where the reader of declarations sets the access of the
  members that follow. The site of a specifier is the path of its class and the access it
  names.

  The sites are collected along the reader's own pass: before each step, the state and
  the token say whether the token is the colon of a specifier.
\<close>

type_synonym site = "string list \<times> access"

fun in_class :: "frame list \<Rightarrow> bool" where
  "in_class (ClassF n a # fs) = True"
| "in_class fs = False"

fun specifier_at :: "scan_state \<Rightarrow> token \<Rightarrow> site list" where
  "specifier_at (InDecl fs h out) t =
     (if tok_class t = TColon \<and> is_access_head h \<and> in_class fs
      then [(scope_of fs, access_of (hd h))] else [])"
| "specifier_at (InBody fs n h b out) t = []"

fun site_step :: "scan_state \<times> site list \<Rightarrow> token \<Rightarrow> scan_state \<times> site list" where
  "site_step (st, ss) t = (outline_step st t, specifier_at st t @ ss)"

fun unit_of_state :: "scan_state \<times> site list \<Rightarrow> decl list \<times> site list" where
  "unit_of_state (st, ss) = (decls_of st, rev ss)"

text \<open>
  A translation unit as read: its declarations (the same as \<open>outline\<close> gives) and the
  sites of its access specifiers, in the order of the text.
\<close>

definition read_unit :: "token list \<Rightarrow> decl list \<times> site list" where
  "read_unit ts = unit_of_state (foldl site_step (InDecl [] [] [], []) ts)"

subsection \<open>The shapes of input a translation unit exhibits\<close>

datatype feature =
    FreeFunction
  | ClassWithConstructor
  | ClassWithField
  | AccessSpecifier
  | FunctionTemplate
  | ClassTemplate
  | ExplicitSpecialization
  | VariadicTemplate
  | NestedNamespace
  | AliasedNamespace
  | CallWithTemplateArguments
  | SmartPointerMember
  | OperatorFunction
  | ControlFlow

text \<open>Whether a scope path is that of a class: of some class declared in the unit.\<close>

definition class_paths :: "decl list \<Rightarrow> string list list" where
  "class_paths ds = map decl_path (filter is_class ds)"

definition is_member :: "decl list \<Rightarrow> decl \<Rightarrow> bool" where
  "is_member ds d = (scope d \<in> set (class_paths ds))"

text \<open>A constructor: a member function named as its class, with no return type.\<close>

definition is_constructor :: "decl list \<Rightarrow> decl \<Rightarrow> bool" where
  "is_constructor ds d =
     (is_function d \<and> is_member ds d \<and> return_type d = [] \<and> scope d \<noteq> [] \<and> name d = last (scope d))"

definition is_smart_pointer :: "token list \<Rightarrow> bool" where
  "is_smart_pointer ty =
     (take 2 ty = [Identifier ''std'', Punctuator ''::''] \<and>
      take 1 (drop 2 ty) \<in> {[Identifier ''shared_ptr''], [Identifier ''unique_ptr''],
                            [Identifier ''weak_ptr'']})"

definition has_control_flow :: "decl \<Rightarrow> bool" where
  "has_control_flow d =
     (is_function d \<and>
      (case body d of
         None \<Rightarrow> False
       | Some b \<Rightarrow> list_ex (\<lambda>t. t \<in> {Keyword ''if'', Keyword ''while'', Keyword ''for''}) b))"

definition has_template_call :: "decl \<Rightarrow> bool" where
  "has_template_call d =
     (is_function d \<and>
      (case body d of None \<Rightarrow> False | Some b \<Rightarrow> calls_with_template_args b \<noteq> []))"

text \<open>
  The name of an operator function: \<open>operator\<close> with the symbols of the operator after
  it, as in \<open>operator[]\<close>. (An identifier that starts with these letters goes on with a
  letter, a digit or an underscore.)
\<close>

definition is_operator_name :: "string \<Rightarrow> bool" where
  "is_operator_name n =
     (take 8 n = ''operator'' \<and>
      (case drop 8 n of [] \<Rightarrow> False | c # cs \<Rightarrow> \<not> is_ident_char c))"

text \<open>
  Whether a declaration of a unit shows a feature. Access specifiers are shown by the
  class they stand in: by a class whose path is the path of a specifier's site.
\<close>

fun exhibits :: "decl list \<times> site list \<Rightarrow> feature \<Rightarrow> decl \<Rightarrow> bool" where
  "exhibits (ds, ss) FreeFunction d = (is_function d \<and> \<not> is_member ds d)"
| "exhibits (ds, ss) ClassWithConstructor d = is_constructor ds d"
| "exhibits (ds, ss) ClassWithField d = (is_field d \<and> is_member ds d)"
| "exhibits (ds, ss) AccessSpecifier d = (is_class d \<and> decl_path d \<in> set (map fst ss))"
| "exhibits (ds, ss) FunctionTemplate d = (is_function d \<and> template_params d \<noteq> [])"
| "exhibits (ds, ss) ClassTemplate d = (is_class d \<and> template_params d \<noteq> [])"
| "exhibits (ds, ss) ExplicitSpecialization d =
     (is_class d \<and> template_intro d \<and> template_params d = [] \<and>
      specialization_args d \<noteq> None \<and> specialization_args d \<noteq> Some [])"
| "exhibits (ds, ss) VariadicTemplate d = (is_function d \<and> is_variadic_template d)"
| "exhibits (ds, ss) NestedNamespace d = (is_namespace d \<and> scope d \<noteq> [])"
| "exhibits (ds, ss) AliasedNamespace d = is_alias d"
| "exhibits (ds, ss) CallWithTemplateArguments d = has_template_call d"
| "exhibits (ds, ss) SmartPointerMember d =
     (is_field d \<and> is_member ds d \<and> is_smart_pointer (field_type d))"
| "exhibits (ds, ss) OperatorFunction d = (is_function d \<and> is_operator_name (name d))"
| "exhibits (ds, ss) ControlFlow d = has_control_flow d"

definition all_features :: "feature list" where
  "all_features =
     [FreeFunction, ClassWithConstructor, ClassWithField, AccessSpecifier, FunctionTemplate,
      ClassTemplate, ExplicitSpecialization, VariadicTemplate, NestedNamespace,
      AliasedNamespace, CallWithTemplateArguments, SmartPointerMember, OperatorFunction,
      ControlFlow]"

text \<open>The declarations of a unit that show a feature, by path.\<close>

definition showing :: "decl list \<times> site list \<Rightarrow> feature \<Rightarrow> string list list" where
  "showing u f = map decl_path (filter (exhibits u f) (fst u))"

text \<open>The features a unit shows: those that one of its declarations shows.\<close>

definition features :: "decl list \<times> site list \<Rightarrow> feature list" where
  "features u = filter (\<lambda>f. list_ex (exhibits u f) (fst u)) all_features"

subsection \<open>The resolver pass\<close>

text \<open>
  The repository holds the sample inputs only; the Scope/Namespace Resolver that the
  specification describes is not in its files. The definitions of this subsection follow
  the specification's text (sections 3, 4.5 and 6).
\<close>

text \<open>
  Modelled from the spec: the result of resolving one reference, which the missing
  resolver records, \<open>Resolved(absolute_scope_path)\<close> or
  \<open>Unresolved(reason: NotFound | Ambiguous)\<close>.
\<close>

datatype unresolved_reason = NotFound | Ambiguous

datatype ResolutionResult = Resolved "string list" | Unresolved unresolved_reason

text \<open>
  Modelled from the spec: the names the missing resolver registers, each declaration under
  its absolute scope path.
\<close>

definition declared_paths :: "decl list \<Rightarrow> string list list" where
  "declared_paths ds = map decl_path (filter (\<lambda>d. \<not> is_alias d) ds)"

text \<open>
  Modelled from the spec: how the missing resolver resolves a qualified path, "by
  searching the current scope and its enclosing chain, then applying any NamespaceAlias
  substitution on the leading path segment". A path that names no declaration is
  \<open>Unresolved NotFound\<close>.
\<close>

definition resolve :: "decl list \<Rightarrow> string list \<Rightarrow> string list \<Rightarrow> ResolutionResult" where
  "resolve ds cur p =
     (let q = substitute_alias ds cur p
      in case find (\<lambda>s. s @ q \<in> set (declared_paths ds)) (enclosing cur) of
           None \<Rightarrow> Unresolved NotFound
         | Some s \<Rightarrow> Resolved (s @ q))"

text \<open>
  Modelled from the spec: the output of the missing engine, an arena of nodes and a
  \<open>resolution_table\<close> from nodes to results. The arena is the list of declarations; a
  declaration's node id is its position in the list, and a reference is keyed by the node
  id of the declaration it stands in and its position among that declaration's
  references.
\<close>

type_synonym NodeId = nat

type_synonym ref_id = "NodeId \<times> nat"

record engine_output =
  arena :: "decl list"
  resolution_table :: "ref_id \<Rightarrow> ResolutionResult option"

text \<open>
  Modelled from the spec: the walk of the missing resolver over the arena, giving the
  result for every reference of every declaration, each resolved in the scope of its
  declaration.
\<close>

definition resolutions_of :: "decl list \<Rightarrow> NodeId \<times> decl \<Rightarrow> (ref_id \<times> ResolutionResult) list" where
  "resolutions_of ds nd =
     (case nd of
        (i, d) \<Rightarrow> map (\<lambda>(k, p). ((i, k), resolve ds (scope d) p)) (enumerate 0 (references d)))"

definition resolutions :: "decl list \<Rightarrow> (ref_id \<times> ResolutionResult) list" where
  "resolutions ds = concat (map (resolutions_of ds) (enumerate 0 ds))"

text \<open>
  Modelled from the spec: the annotation pass of the missing resolver, which "writes into
  a side table keyed by NodeId rather than mutating node bodies". Each result is written
  over whatever the table held for its key; the arena is left as it is.
\<close>

definition write_all ::
  "(ref_id \<times> ResolutionResult) list \<Rightarrow> (ref_id \<Rightarrow> ResolutionResult option)
     \<Rightarrow> (ref_id \<Rightarrow> ResolutionResult option)" where
  "write_all rs tbl = foldr (\<lambda>(k, r) m. m(k \<mapsto> r)) rs tbl"

definition run_resolver :: "engine_output \<Rightarrow> engine_output" where
  "run_resolver out =
     out\<lparr>resolution_table := write_all (resolutions (arena out)) (resolution_table out)\<rparr>"

section \<open>Properties of factorial\<close>

lemma sint_pred_int32:
  fixes n :: int32
  assumes "1 <s n"
  shows "sint (n - 1) = sint n - 1"
proof -
  have lo: "1 < sint n"
    using assms by (simp add: word_sless_alt)
  have hi: "sint n < 2 ^ 31"
    using sint_lt [of n] by simp
  have "sint (n - 1) = signed_take_bit 31 (sint n - 1)"
    by (simp add: sint_word_ariths)
  also have "\<dots> = sint n - 1"
    using lo hi by (simp add: signed_take_bit_int_eq_self)
  finally show ?thesis .
qed

lemma factorial_returns_aux:
  "nat (sint n) = k \<Longrightarrow> \<exists>y. factorial n = Some y"
proof (induction k arbitrary: n rule: less_induct)
  case (less k)
  show ?case
  proof (cases "n \<le>s 1")
    case True
    then show ?thesis by (subst factorial.simps) simp
  next
    case False
    then have gt: "1 <s n" by (simp add: word_sless_alt word_sle_eq)
    have dec: "sint (n - 1) = sint n - 1" by (rule sint_pred_int32 [OF gt])
    have pos: "1 < sint n" using gt by (simp add: word_sless_alt)
    have "nat (sint (n - 1)) < k"
      using dec pos less.prems by simp
    from less.IH [OF this refl] obtain r where "factorial (n - 1) = Some r" ..
    then show ?thesis using False by (subst factorial.simps) simp
  qed
qed

text \<open>
  C5. \<open>factorial\<close> returns for every 32-bit input. For \<open>n \<le> 1\<close> the result is 1 with no
  recursive call; for \<open>n > 1\<close> the argument of the recursive call is smaller by exactly one
  (no wrap-around, still at least 1), the recursive call returns some \<open>r\<close>, and the result
  is the wrapped product \<open>n * r\<close>.
\<close>

theorem factorial_terminates:
  "(\<exists>y. factorial n = Some y) \<and>
   (n \<le>s 1 \<longrightarrow> factorial n = Some 1) \<and>
   (1 <s n \<longrightarrow>
      sint (n - 1) = sint n - 1 \<and> 1 \<le> sint (n - 1) \<and>
      (\<exists>r. factorial (n - 1) = Some r \<and> factorial n = Some (n * r)))"
proof (intro conjI impI)
  show "\<exists>y. factorial n = Some y"
    by (rule factorial_returns_aux [OF refl])
next
  assume "n \<le>s 1"
  then show "factorial n = Some 1" by (subst factorial.simps) simp
next
  assume gt: "1 <s n"
  show "sint (n - 1) = sint n - 1" by (rule sint_pred_int32 [OF gt])
  then show "1 \<le> sint (n - 1)" using gt by (simp add: word_sless_alt)
  from factorial_returns_aux [OF refl, of "n - 1"]
  obtain r where r: "factorial (n - 1) = Some r" ..
  have "\<not> n \<le>s 1" using gt by (simp add: word_sless_alt word_sle_eq)
  then have "factorial n = Some (n * r)"
    using r by (subst factorial.simps) simp
  with r show "\<exists>r. factorial (n - 1) = Some r \<and> factorial n = Some (n * r)"
    by blast
qed

theorem factorial_terminates_witness:
  "(1 :: int32) <s 5 \<and> factorial 5 = Some 120 \<and> factorial (5 - 1) = Some 24"
proof -
  have f1: "factorial 1 = Some 1" by (subst factorial.simps) simp
  have f2: "factorial 2 = Some 2" by (subst factorial.simps) (simp add: f1 word_sle_eq)
  have f3: "factorial 3 = Some 6" by (subst factorial.simps) (simp add: f2 word_sle_eq)
  have f4: "factorial 4 = Some 24" by (subst factorial.simps) (simp add: f3 word_sle_eq)
  have gt: "(1 :: int32) <s 5" by (simp add: word_sless_alt)
  from factorial_terminates [of 5] gt f4 show ?thesis by auto
qed

section \<open>Properties of LinkedList\<close>

lemma chain_unique: "chain h p as \<Longrightarrow> chain h p bs \<Longrightarrow> as = bs"
proof (induction as arbitrary: p bs)
  case Nil
  then show ?case by (cases bs) auto
next
  case (Cons a as)
  then show ?case by (cases bs) (auto split: option.splits)
qed

lemma chain_dom: "chain h p as \<Longrightarrow> a \<in> set as \<Longrightarrow> a \<noteq> nullptr \<and> h a \<noteq> None"
proof (induction as arbitrary: p)
  case Nil
  then show ?case by simp
next
  case (Cons b bs)
  from Cons.prems(1) obtain n where n: "h b = Some n" "chain h (nxt n) bs" "b \<noteq> nullptr"
    by (auto split: option.splits)
  show ?case
  proof (cases "a = b")
    case True
    with n show ?thesis by simp
  next
    case False
    with Cons.prems(2) have "a \<in> set bs" by simp
    from Cons.IH [OF n(2) this] show ?thesis .
  qed
qed

lemma chain_suffix: "chain (h :: 'a heap) p (as @ bs) \<Longrightarrow> \<exists>q. chain h q bs"
proof (induction as arbitrary: p)
  case Nil
  then show ?case by auto
next
  case (Cons b as)
  from Cons.prems obtain n :: "'a Node" where "chain h (nxt n) (as @ bs)"
    by (auto split: option.splits)
  then show ?case by (rule Cons.IH)
qed

lemma chain_head: "chain h q (a # bs) \<Longrightarrow> q = a"
  by simp

lemma chain_distinct: "chain h p as \<Longrightarrow> distinct as"
proof (induction as arbitrary: p)
  case Nil
  then show ?case by simp
next
  case (Cons a as)
  from Cons.prems obtain n where n: "h a = Some n" "chain h (nxt n) as" "p = a" "a \<noteq> nullptr"
    by (auto split: option.splits)
  have "a \<notin> set as"
  proof
    assume "a \<in> set as"
    then obtain xs ys where as: "as = xs @ a # ys" by (meson split_list)
    with n(2) obtain q where "chain h q (a # ys)" using chain_suffix by blast
    then have "chain h a (a # ys)" using chain_head by blast
    moreover have "chain h a (a # as)" using n by simp
    ultimately have "a # ys = a # as" by (rule chain_unique)
    with as show False by simp
  qed
  with Cons.IH [OF n(2)] show ?case by simp
qed

lemma chain_length_bound:
  assumes "chain h p as"
  shows "length as < 2 ^ 64 - 1 \<or> (length as = 2 ^ 64 - 1 \<and> set as = UNIV - {nullptr})"
proof -
  have d: "distinct as" using assms by (rule chain_distinct)
  have sub: "set as \<subseteq> UNIV - {nullptr}" using chain_dom [OF assms] by blast
  have cU: "card (UNIV - {nullptr} :: addr set) = 2 ^ 64 - 1"
    by (simp add: card_Diff_singleton card_word)
  have "card (set as) \<le> card (UNIV - {nullptr} :: addr set)"
    by (rule card_mono) (use sub in auto)
  then have le: "length as \<le> 2 ^ 64 - 1" using d cU by (simp add: distinct_card)
  show ?thesis
  proof (cases "length as = 2 ^ 64 - 1")
    case True
    then have "card (set as) = card (UNIV - {nullptr} :: addr set)" using d cU by (simp add: distinct_card)
    then have "set as = UNIV - {nullptr}" using sub by (simp add: card_subset_eq)
    with True show ?thesis by simp
  next
    case False
    with le show ?thesis by simp
  qed
qed

lemma fresh_length:
  assumes "chain h p as" "new_node \<noteq> nullptr" "h new_node = None"
  shows "length as < 2 ^ 64 - 1"
proof -
  have "new_node \<notin> set as" using chain_dom [OF assms(1), of new_node] assms(3) by blast
  then have "set as \<noteq> UNIV - {nullptr}" using assms(2) by auto
  with chain_length_bound [OF assms(1)] show ?thesis by auto
qed

lemma unat_size_incr:
  fixes s :: size_t
  assumes "unat s = n" "n < 2 ^ 64 - 1"
  shows "unat (s + 1) = Suc n"
proof -
  have "unat (s + 1) = (unat s + 1) mod 2 ^ 64" by (simp add: unat_word_ariths)
  then show ?thesis using assms by simp
qed

lemma chain_update_other:
  "chain h p as \<Longrightarrow> q \<notin> set as \<Longrightarrow> chain (h(q \<mapsto> n)) p as"
  by (induction as arbitrary: p) (auto split: option.splits)

lemma last_node_chain:
  "chain h p (as @ [a]) \<Longrightarrow> last_node h p = Some a"
proof (induction as arbitrary: p)
  case Nil
  then show ?case by (subst last_node.simps) (auto split: option.splits)
next
  case (Cons b bs)
  from Cons.prems obtain n where n: "h b = Some n" "p = b" "chain h (nxt n) (bs @ [a])"
    by (auto split: option.splits)
  from n(3) have "nxt n \<noteq> nullptr" by (cases bs) auto
  with Cons.IH [OF n(3)] n show ?case by (subst last_node.simps) simp
qed

lemma chain_append_last:
  assumes "chain h p (as @ [a])" "h a = Some n" "new_node \<notin> set (as @ [a])" 
     "h new_node = Some m" "nxt m = nullptr" "new_node \<noteq> nullptr"
  shows "chain (h(a \<mapsto> n\<lparr>nxt := new_node\<rparr>)) p (as @ [a, new_node])"
  using assms
proof (induction as arbitrary: p)
  case Nil
  then show ?case by (auto split: option.splits)
next
  case (Cons b bs)
  have "distinct ((b # bs) @ [a])" using Cons.prems(1) by (rule chain_distinct)
  then have "b \<noteq> a" by auto
  with Cons show ?case by (auto split: option.splits)
qed

lemma chain_null_iff: "chain h p as \<Longrightarrow> (p = nullptr) = (as = [])"
  by (cases as) auto

lemma push_front_ok:
  assumes inv: "size_ok h l as" and fresh: "new_node \<noteq> nullptr" "h new_node = None"
  shows "\<exists>h' l'. push_front new_node v (h, l) = Some (h', l') \<and> size_ok h' l' (new_node # as)"
proof -
  from inv have ch: "chain h (head l) as" and sz: "unat (size_f l) = length as"
    by (simp_all add: size_ok_def)
  have notin: "new_node \<notin> set as" using chain_dom [OF ch, of new_node] fresh(2) by blast
  let ?h = "h(new_node \<mapsto> \<lparr>Node.data = v, nxt = head l\<rparr>)"
  let ?l = "l\<lparr>head := new_node, size_f := size_f l + 1\<rparr>"
  have run: "push_front new_node v (h, l) = Some (?h, ?l)"
    by (simp add: push_front_def set_next_def make_shared_Node_def)
  have "chain ?h (head l) as" by (rule chain_update_other [OF ch notin])
  then have ch': "chain ?h (head ?l) (new_node # as)" using fresh(1) by simp
  have "unat (size_f ?l) = length (new_node # as)"
    using unat_size_incr [OF sz fresh_length [OF ch fresh]] by simp
  with ch' have "size_ok ?h ?l (new_node # as)" by (simp add: size_ok_def)
  with run show ?thesis by blast
qed

lemma push_back_ok:
  assumes inv: "size_ok h l as" and fresh: "new_node \<noteq> nullptr" "h new_node = None"
  shows "\<exists>h' l'. push_back new_node v (h, l) = Some (h', l') \<and> size_ok h' l' (as @ [new_node])"
proof -
  from inv have ch: "chain h (head l) as" and sz: "unat (size_f l) = length as"
    by (simp_all add: size_ok_def)
  have notin: "new_node \<notin> set as" using chain_dom [OF ch, of new_node] fresh(2) by blast
  let ?m = "\<lparr>Node.data = v, nxt = nullptr\<rparr>"
  let ?h1 = "h(new_node \<mapsto> ?m)"
  have sz': "unat (size_f l + 1) = length (as @ [new_node])"
    using unat_size_incr [OF sz fresh_length [OF ch fresh]] by simp
  show ?thesis
  proof (cases as rule: rev_cases)
    case Nil
    then have hd0: "head l = nullptr" using ch by simp
    let ?l = "l\<lparr>head := new_node, size_f := size_f l + 1\<rparr>"
    have run: "push_back new_node v (h, l) = Some (?h1, ?l)"
      using hd0 by (simp add: push_back_def make_shared_Node_def)
    have "chain ?h1 (head ?l) (as @ [new_node])" using Nil fresh(1) by simp
    with sz' have "size_ok ?h1 ?l (as @ [new_node])" by (simp add: size_ok_def)
    with run show ?thesis by blast
  next
    case (snoc bs a)
    then have hdn: "head l \<noteq> nullptr" using chain_null_iff [OF ch] by simp
    have a_in: "a \<in> set as" using snoc by simp
    then have a_new: "a \<noteq> new_node" using notin by auto
    from chain_dom [OF ch a_in] obtain n where n: "h a = Some n" by auto
    have ch1: "chain ?h1 (head l) (bs @ [a])"
      using chain_update_other [OF ch notin] snoc by simp
    have ln: "last_node ?h1 (head l) = Some a" by (rule last_node_chain [OF ch1])
    let ?h2 = "?h1(a \<mapsto> n\<lparr>nxt := new_node\<rparr>)"
    let ?l = "l\<lparr>size_f := size_f l + 1\<rparr>"
    have run: "push_back new_node v (h, l) = Some (?h2, ?l)"
      using hdn ln n a_new by (simp add: push_back_def make_shared_Node_def set_next_def)
    have "chain ?h2 (head l) (bs @ [a, new_node])"
    proof (rule chain_append_last [OF ch1])
      show "?h1 a = Some n" using n a_new by simp
      show "new_node \<notin> set (bs @ [a])" using notin snoc by simp
      show "?h1 new_node = Some ?m" by simp
      show "nxt ?m = nullptr" by simp
      show "new_node \<noteq> nullptr" by (rule fresh(1))
    qed
    then have "chain ?h2 (head ?l) (as @ [new_node])" using snoc by simp
    with sz' have "size_ok ?h2 ?l (as @ [new_node])" by (simp add: size_ok_def)
    with run show ?thesis by blast
  qed
qed

lemma pop_front_ok:
  assumes inv: "size_ok h l as"
  shows "\<exists>h' l'. pop_front (h, l) = Some (h', l') \<and> size_ok h' l' (tl as)"
proof -
  from inv have ch: "chain h (head l) as" and sz: "unat (size_f l) = length as"
    by (simp_all add: size_ok_def)
  show ?thesis
  proof (cases as)
    case Nil
    then have "head l = nullptr" using ch by simp
    then have "pop_front (h, l) = Some (h, l)" by (simp add: pop_front_def)
    with inv Nil show ?thesis by auto
  next
    case (Cons a bs)
    with ch obtain n where n: "h a = Some n" "head l = a" "a \<noteq> nullptr" "chain h (nxt n) bs"
      by (auto split: option.splits)
    let ?l = "l\<lparr>head := nxt n, size_f := size_f l - 1\<rparr>"
    have run: "pop_front (h, l) = Some (h, ?l)" using n by (simp add: pop_front_def)
    have "unat (size_f l) = Suc (length bs)" using sz Cons by simp
    then have "unat (size_f l - 1) = length bs"
      by (metis diff_Suc_1 nat.simps(3) unat_eq_zero unat_minus_one)
    with n(4) have "size_ok h ?l (tl as)" using Cons by (simp add: size_ok_def)
    with run show ?thesis by blast
  qed
qed

text \<open>
  C6. \<open>size\<close> is the number of nodes reachable from \<open>head\<close>: this holds for the list the
  constructor builds, and when it holds before \<open>push_front\<close>, \<open>push_back\<close> or \<open>pop_front\<close>
  the operation returns and it holds afterwards (for the nodes with the new one in front, at
  the end, or without the first). \<open>pop_front\<close> on a list whose \<open>head\<close> is null changes
  nothing.
\<close>

theorem LinkedList_size_invariant:
  fixes h h0 :: "'a heap"
  assumes inv: "size_ok h l as" and fresh: "new_node \<noteq> nullptr" "h new_node = None"
  shows
    "size_ok h0 LinkedList_ctor [] \<and>
     (\<exists>h' l'. push_front new_node v (h, l) = Some (h', l') \<and> size_ok h' l' (new_node # as)) \<and>
     (\<exists>h' l'. push_back new_node v (h, l) = Some (h', l') \<and> size_ok h' l' (as @ [new_node])) \<and>
     (\<exists>h' l'. pop_front (h, l) = Some (h', l') \<and> size_ok h' l' (tl as)) \<and>
     (head l = nullptr \<longrightarrow> pop_front (h, l) = Some (h, l))"
proof (intro conjI)
  show "size_ok h0 LinkedList_ctor []" by (simp add: size_ok_def LinkedList_ctor_def)
  show "\<exists>h' l'. push_front new_node v (h, l) = Some (h', l') \<and> size_ok h' l' (new_node # as)"
    by (rule push_front_ok [OF inv fresh])
  show "\<exists>h' l'. push_back new_node v (h, l) = Some (h', l') \<and> size_ok h' l' (as @ [new_node])"
    by (rule push_back_ok [OF inv fresh])
  show "\<exists>h' l'. pop_front (h, l) = Some (h', l') \<and> size_ok h' l' (tl as)"
    by (rule pop_front_ok [OF inv])
  show "head l = nullptr \<longrightarrow> pop_front (h, l) = Some (h, l)"
    by (simp add: pop_front_def)
qed

theorem LinkedList_size_invariant_witness:
  "size_ok heap1 \<lparr>head = 1, size_f = 1\<rparr> [1] \<and>
   (\<exists>h' l'. push_back 2 8 (heap1, \<lparr>head = 1, size_f = 1\<rparr>) = Some (h', l') \<and> size_ok h' l' [1, 2]) \<and>
   (\<exists>h' l'. pop_front (heap1, \<lparr>head = 1, size_f = 1\<rparr>) = Some (h', l') \<and> size_ok h' l' [])"
proof -
  have inv: "size_ok heap1 \<lparr>head = 1, size_f = 1\<rparr> [1]"
    by (simp add: size_ok_def heap1_def nullptr_def)
  have f1: "(2 :: addr) \<noteq> nullptr" by (simp add: nullptr_def)
  have f2: "heap1 2 = None" by (simp add: heap1_def)
  from LinkedList_size_invariant [OF inv f1 f2, of heap1 8] inv show ?thesis by simp
qed

section \<open>Properties of Array\<close>

text \<open>
  C7. Each of the three bounds-checked members throws \<open>std::out_of_range\<close> exactly when
  \<open>index < 0\<close> or \<open>index >= Size\<close> (8 in the specialization), and whenever it throws
  the object is as it was before the call.
\<close>

theorem Array_out_of_range:
  "(isl (snd (Array_index a index)) = (index <s 0 \<or> Size a \<le>s index)) \<and>
   (isl (snd (Array_bool_8_index b index)) = (index <s 0 \<or> 8 \<le>s index)) \<and>
   (isl (snd (Array_bool_8_set b index v)) = (index <s 0 \<or> 8 \<le>s index)) \<and>
   (isl (snd (Array_index a index)) \<longrightarrow> fst (Array_index a index) = a) \<and>
   (isl (snd (Array_bool_8_index b index)) \<longrightarrow> fst (Array_bool_8_index b index) = b) \<and>
   (isl (snd (Array_bool_8_set b index v)) \<longrightarrow> fst (Array_bool_8_set b index v) = b)"
  by (simp add: Array_index_def Array_bool_8_index_def Array_bool_8_set_def)

text \<open>The calls of \<open>main\<close> on \<open>boolArray\<close>: bits 0 and 3 are set, bit 1 is not.\<close>

lemma boolArray_bit3:
  "Array_bool_8_index (fst (Array_bool_8_set (fst (Array_bool_8_set Array_bool_8_ctor 0 True)) 3 True)) 3
  = (\<lparr>Array_bool_8.data = 9\<rparr>, Inr True)"
  by (simp add: Array_bool_8_index_def Array_bool_8_set_def Array_bool_8_ctor_def bit_mask_def word_sless_alt word_sle_eq)

lemma boolArray_bit1:
  "Array_bool_8_index (fst (Array_bool_8_set (fst (Array_bool_8_set Array_bool_8_ctor 0 True)) 3 True)) 1
  = (\<lparr>Array_bool_8.data = 9\<rparr>, Inr False)"
  by (simp add: Array_bool_8_index_def Array_bool_8_set_def Array_bool_8_ctor_def bit_mask_def word_sless_alt word_sle_eq)

lemma boolArray_clear:
  "Array_bool_8_set \<lparr>Array_bool_8.data = 9\<rparr> 3 False
  = (\<lparr>Array_bool_8.data = 1\<rparr>, Inr ())"
  by (simp add: Array_bool_8_index_def Array_bool_8_set_def Array_bool_8_ctor_def bit_mask_def word_sless_alt word_sle_eq)

theorem Array_out_of_range_witness:
  "isl (snd (Array_index (Array_ctor 5 (0 :: int32)) 5)) \<and>
   fst (Array_index (Array_ctor 5 (0 :: int32)) 5) = Array_ctor 5 0 \<and>
   isl (snd (Array_bool_8_index \<lparr>Array_bool_8.data = 9\<rparr> (- 1))) \<and>
   fst (Array_bool_8_index \<lparr>Array_bool_8.data = 9\<rparr> (- 1)) = \<lparr>Array_bool_8.data = 9\<rparr> \<and>
   isl (snd (Array_bool_8_set \<lparr>Array_bool_8.data = 9\<rparr> 8 True)) \<and>
   fst (Array_bool_8_set \<lparr>Array_bool_8.data = 9\<rparr> 8 True) = \<lparr>Array_bool_8.data = 9\<rparr>"
proof -
  have s: "Size (Array_ctor 5 (0 :: int32)) \<le>s 5" by (simp add: Array_ctor_def)
  have m: "(- 1 :: int32) <s 0" by (simp add: word_sless_alt)
  have e: "(8 :: int32) \<le>s 8" by simp
  from Array_out_of_range [of "Array_ctor 5 (0 :: int32)" 5 "\<lparr>Array_bool_8.data = 9\<rparr>" True] s
  have p1: "isl (snd (Array_index (Array_ctor 5 (0 :: int32)) 5)) \<and>
     fst (Array_index (Array_ctor 5 (0 :: int32)) 5) = Array_ctor 5 0" by simp
  from Array_out_of_range [of "Array_ctor 5 (0 :: int32)" "- 1" "\<lparr>Array_bool_8.data = 9\<rparr>" True] m
  have p2: "isl (snd (Array_bool_8_index \<lparr>Array_bool_8.data = 9\<rparr> (- 1))) \<and>
   fst (Array_bool_8_index \<lparr>Array_bool_8.data = 9\<rparr> (- 1)) = \<lparr>Array_bool_8.data = 9\<rparr>" by simp
  from Array_out_of_range [of "Array_ctor 5 (0 :: int32)" 8 "\<lparr>Array_bool_8.data = 9\<rparr>" True] e
  have p3: "isl (snd (Array_bool_8_set \<lparr>Array_bool_8.data = 9\<rparr> 8 True)) \<and>
   fst (Array_bool_8_set \<lparr>Array_bool_8.data = 9\<rparr> 8 True) = \<lparr>Array_bool_8.data = 9\<rparr>" by simp
  from p1 p2 p3 show ?thesis by simp
qed

section \<open>Evaluating the character classes\<close>

text \<open>The classes of characters by the bits of the character, for evaluation.\<close>

lemma is_letter_bits [code]:
  "is_letter (Char b0 b1 b2 b3 b4 b5 b6 b7) =
     (\<not> b7 \<and> b6 \<and>
      ((b0 \<or> b1 \<or> b2 \<or> b3 \<or> b4) \<and> \<not> (b4 \<and> b3 \<and> (b2 \<or> b1 \<and> b0)) \<or>
       (b0 \<and> b1 \<and> b2 \<and> b3 \<and> b4 \<and> \<not> b5)))"
  by (cases b0; cases b1; cases b2; cases b3; cases b4; cases b5; cases b6; cases b7;
      simp add: is_letter_def)

lemma is_digit_bits [code]:
  "is_digit (Char b0 b1 b2 b3 b4 b5 b6 b7) =
     (\<not> b7 \<and> \<not> b6 \<and> b5 \<and> b4 \<and> (\<not> b3 \<or> \<not> b2 \<and> \<not> b1))"
  by (cases b0; cases b1; cases b2; cases b3; cases b4; cases b5; cases b6; cases b7;
      simp add: is_digit_def)

section \<open>Properties of the sample files\<close>

lemma sample_line_counts:
  "map line_count [basic_example_cpp, data_structures_cpp, namespaces_cpp, templates_cpp] =
     [36, 104, 84, 105]"
  by code_simp

text \<open>
  C9. The four sample files have 36, 104, 84 and 105 lines, 329 in all. The last line of
  templates.cpp has no newline after it and counts as a line.
\<close>

theorem sample_lines_total:
  "sum_list (map line_count
     [basic_example_cpp, data_structures_cpp, namespaces_cpp, templates_cpp]) = 329"
  using sample_line_counts by simp

text \<open>
  C1. templates.cpp declares two classes named \<open>Array\<close>, in this order: the primary
  template with the parameters \<open>typename T\<close> and \<open>int Size\<close> and no specialization
  arguments, then the specialization introduced by \<open>template<>\<close> with no parameters and the
  arguments \<open>bool\<close> and \<open>8\<close>. Every class of the file has empty template parameters
  where it has specialization arguments.
\<close>

theorem templates_two_Array_classes:
  "let ds = declarations templates_cpp in
     filter (is_class_named ''Array'') ds =
       [ClassDecl [] ''Array'' True [TypeParam ''T'', NonTypeParam [Keyword ''int''] ''Size'']
          None [],
        ClassDecl [] ''Array'' True [] (Some [[Keyword ''bool''], [Numeric ''8'']]) []] \<and>
     list_all full_specialization_ok ds"
  by code_simp

text \<open>
  C2. The namespace declarations and aliases of namespaces.cpp are exactly: the top-level
  namespace \<open>math\<close>, the namespace \<open>geometry\<close> inside \<open>math\<close>, the top-level namespace
  \<open>utils\<close>, and the alias \<open>geo\<close>.
\<close>

theorem namespaces_sample_structure:
  "filter (\<lambda>d. is_namespace d \<or> is_alias d) (declarations namespaces_cpp) =
     [NamespaceDecl [] ''math'',
      NamespaceDecl [''math''] ''geometry'',
      NamespaceDecl [] ''utils'',
      NamespaceAlias [] ''geo'' [''math'', ''geometry'']]"
  by code_simp

text \<open>
  C3. namespaces.cpp declares the alias \<open>geo\<close> with target path \<open>math::geometry\<close>; its only
  \<open>Point\<close> is the struct in namespace \<open>geometry\<close> inside \<open>math\<close>; the references
  \<open>geo::Point\<close> of the file (two, both in \<open>main\<close>) come after the alias, and alias
  substitution on the leading segment makes each of them the absolute path
  \<open>math::geometry::Point\<close>, the path of that struct.
\<close>

theorem geo_Point_resolution:
  "let ds = declarations namespaces_cpp;
       later = drop 1 (dropWhile (\<lambda>d. \<not> is_alias d) ds)
   in filter is_alias ds = [NamespaceAlias [] ''geo'' [''math'', ''geometry'']] \<and>
      filter (is_class_named ''Point'') ds =
        [ClassDecl [''math'', ''geometry''] ''Point'' False [] None []] \<and>
      filter (\<lambda>p. p = [''geo'', ''Point'']) (concat (map references ds)) =
        [[''geo'', ''Point''], [''geo'', ''Point'']] \<and>
      map (\<lambda>d. (decl_path d, filter (\<lambda>p. p = [''geo'', ''Point'']) (references d))) later =
        [([''main''], [[''geo'', ''Point''], [''geo'', ''Point'']])] \<and>
      concat (map (\<lambda>d. map (substitute_alias ds (scope d))
                          (filter (\<lambda>p. p = [''geo'', ''Point'']) (references d))) later) =
        [[''math'', ''geometry'', ''Point''], [''math'', ''geometry'', ''Point'']] \<and>
      map decl_path (filter (is_class_named ''Point'') ds) = [[''math'', ''geometry'', ''Point'']]"
  by code_simp

text \<open>
  C4. In basic\_example.cpp the class \<open>Calculator\<close> has one member function
  \<open>computeFactorial\<close>: it has no template introducer and no template parameters, and takes
  one parameter \<open>int n\<close>. \<open>main\<close> declares \<open>calc\<close> as a \<open>Calculator\<close> and its only call with
  explicit template arguments is \<open>calc.computeFactorial<Calculator>(...)\<close>: the arguments
  are given to a member function that is not a template, which C++ does not allow.
\<close>

theorem computeFactorial_call_not_allowed:
  "let ds = declarations basic_example_cpp;
       b = body_of ds [] ''main''
   in map signature (member_functions ds [''Calculator''] ''computeFactorial'') =
        [FunctionDecl [''Calculator''] ''computeFactorial'' False [] [Keyword ''void'']
           [[Keyword ''int'', Identifier ''n'']] False Public None] \<and>
      local_type ''calc'' b = Some ''Calculator'' \<and>
      calls_with_template_args b =
        [([Identifier ''calc'', Punctuator ''.'', Identifier ''computeFactorial''],
          [[Identifier ''Calculator'']])] \<and>
      \<not> template_call_allowed ds b
          [Identifier ''calc'', Punctuator ''.'', Identifier ''computeFactorial'']"
  by code_simp

text \<open>
  The reader with the sites gives the declarations that the reader alone gives.
\<close>

lemma foldl_site_step_fst:
  "fst (foldl site_step (st, ss) ts) = foldl outline_step st ts"
  by (induction ts arbitrary: st ss) simp_all

lemma read_unit_outline: "fst (read_unit ts) = outline ts"
proof -
  obtain st ss where e: "foldl site_step (InDecl [] [] [], []) ts = (st, ss)"
    by (cases "foldl site_step (InDecl [] [] [], []) ts")
  have "st = foldl outline_step (InDecl [] [] []) ts"
    using foldl_site_step_fst [of "InDecl [] [] []" "[]" ts] e by simp
  then show ?thesis by (simp add: read_unit_def outline_def e)
qed

lemma read_unit_declarations: "fst (read_unit (lex src)) = declarations src"
  by (simp add: read_unit_outline declarations_def)

text \<open>
  A class whose members are private by default has no access specifier; a struct that
  writes \<open>public:\<close> has one, and the \<open>public\<close> of its base class is not one.
\<close>

lemma plain_class_has_no_specifier:
  "let u = read_unit (lex ''class A { int x; void f() { if (x) x = 1; } };'')
   in (snd u, AccessSpecifier \<in> set (features u), showing u ClassWithField) =
        ([], False, [[''A'', ''x'']])"
  by code_simp

lemma struct_with_specifier:
  "let u = read_unit (lex ''struct S : public B { public: int x; };'')
   in (snd u, AccessSpecifier \<in> set (features u)) = ([([''S''], Public)], True)"
  by code_simp

text \<open>
  C8. Every input shape occurs in a sample. \<open>print\<close> in templates.cpp is a variadic
  function template, the fields \<open>Node::next\<close> and \<open>LinkedList::head\<close> of
  data\_structures.cpp have a smart-pointer type, and namespaces.cpp has the nested
  namespace \<open>math::geometry\<close> and the alias \<open>geo\<close>. The access specifiers are those
  written in the text: \<open>public:\<close> and \<open>private:\<close> in \<open>Calculator\<close>, \<open>private:\<close> and
  \<open>public:\<close> in \<open>LinkedList\<close> and in each of the two \<open>Array\<close> classes, none in
  namespaces.cpp. The shapes the four files show cover the whole list: free functions,
  classes with constructors, fields and access specifiers, function and class templates,
  an explicit specialization, a variadic template, nested and aliased namespaces, calls
  with template arguments, smart-pointer members, an operator function and control flow.
\<close>

theorem samples_show_every_shape:
  "let b = read_unit (lex basic_example_cpp);
       d = read_unit (lex data_structures_cpp);
       n = read_unit (lex namespaces_cpp);
       t = read_unit (lex templates_cpp)
   in snd b = [([''Calculator''], Public), ([''Calculator''], Private)] \<and>
      snd d = [([''LinkedList''], Private), ([''LinkedList''], Public)] \<and>
      snd n = [] \<and>
      snd t = [([''Array''], Private), ([''Array''], Public),
               ([''Array''], Private), ([''Array''], Public)] \<and>
      showing b AccessSpecifier = [[''Calculator'']] \<and>
      showing d AccessSpecifier = [[''LinkedList'']] \<and>
      showing t AccessSpecifier = [[''Array''], [''Array'']] \<and>
      showing t VariadicTemplate = [[''print'']] \<and>
      showing t ExplicitSpecialization = [[''Array'']] \<and>
      showing t OperatorFunction = [[''Array'', ''operator[]''], [''Array'', ''operator[]'']] \<and>
      showing d SmartPointerMember = [[''Node'', ''next''], [''LinkedList'', ''head'']] \<and>
      showing n NestedNamespace = [[''math'', ''geometry'']] \<and>
      showing n AliasedNamespace = [[''geo'']] \<and>
      features b =
        [FreeFunction, ClassWithConstructor, ClassWithField, AccessSpecifier,
         CallWithTemplateArguments, ControlFlow] \<and>
      features d =
        [FreeFunction, ClassWithConstructor, ClassWithField, AccessSpecifier, ClassTemplate,
         CallWithTemplateArguments, SmartPointerMember, ControlFlow] \<and>
      features n =
        [FreeFunction, ClassWithConstructor, ClassWithField, FunctionTemplate,
         NestedNamespace, AliasedNamespace] \<and>
      features t =
        [FreeFunction, ClassWithConstructor, ClassWithField, AccessSpecifier,
         FunctionTemplate, ClassTemplate, ExplicitSpecialization, VariadicTemplate,
         OperatorFunction, ControlFlow] \<and>
      list_all (\<lambda>f. f \<in> set (features b @ features d @ features n @ features t)) all_features"
  by code_simp

section \<open>Properties of the resolver pass\<close>

lemma write_all_map_add: "write_all rs tbl = tbl ++ map_of rs"
  unfolding write_all_def by (rule map_add_map_of_foldr [symmetric])

lemma write_all_twice: "write_all rs (write_all rs tbl) = write_all rs tbl"
  by (rule ext) (simp add: write_all_map_add map_add_def split: option.split)

lemma run_resolver_arena: "arena (run_resolver out) = arena out"
  by (simp add: run_resolver_def)

text \<open>
  C10. Running the resolver a second time changes nothing: the table after two runs is the
  table after one, whatever the table held before the first run, and the arena is never
  changed.
\<close>

theorem run_resolver_idempotent:
  "resolution_table (run_resolver (run_resolver out)) = resolution_table (run_resolver out) \<and>
   arena (run_resolver out) = arena out \<and>
   run_resolver (run_resolver out) = run_resolver out"
  by (simp add: run_resolver_def write_all_twice)

text \<open>
  The pass on namespaces.cpp, from an empty table. \<open>main\<close> is node 20; its references 7
  and 8 are the two \<open>geo::Point\<close>, its reference 0 is \<open>std::cout\<close>, which the file does
  not declare. Node 0, the namespace \<open>math\<close>, has no reference.
\<close>

lemma run_resolver_namespaces_sample:
  "let out = run_resolver \<lparr>arena = declarations namespaces_cpp, resolution_table = Map.empty\<rparr>
   in map (resolution_table out) [(20, 7), (20, 8), (20, 0), (0, 0)] =
        [Some (Resolved [''math'', ''geometry'', ''Point'']),
         Some (Resolved [''math'', ''geometry'', ''Point'']),
         Some (Unresolved NotFound),
         None]"
  by code_simp

end
